theory Spec2Isabelle
  imports
    Complex_Main
    "HOL-Library.Sublist"
    "HOL-Library.Log_Nat"
    "HOL-Library.Multiset"
    "HOL-Library.Product_Lexorder"
    "HOL-Library.Signed_Division"
begin

section \<open>The performance aggregation engine of the App-In report\<close>

text \<open>
  A shallow embedding of \<^verbatim>\<open>internal/appin/coversion.go\<close>: the functions that turn a
  list of case records into the Overview report. Every Go function keeps its name; a Go
  struct is a record, a slice is a list, a nilable pointer is an option.
\<close>

subsection \<open>Go primitives: time, strings, integers, float32, maps, sort.Slice\<close>

text \<open>
  A \<^verbatim>\<open>time.Time\<close> read from JSON carries no monotonic clock reading, so an instant is
  its number of nanoseconds on the wall clock. A \<^verbatim>\<open>time.Duration\<close> is an int64 count
  of nanoseconds. \<^verbatim>\<open>Time.Sub\<close> saturates at the ends of the int64 range;
  \<^verbatim>\<open>+=\<close> on durations wraps around; \<^verbatim>\<open>/\<close> on integers truncates toward zero
  (\<open>sdiv\<close>). The clock is the parameter \<open>now\<close> of every function that reads it: one
  run reads it once for every pending record (\<^verbatim>\<open>time.Since\<close>) and once for the
  pending histogram (\<^verbatim>\<open>time.Now\<close>), and all these readings are the one instant \<open>now\<close>.
\<close>

type_synonym Time = int
type_synonym Duration = int

definition minDuration :: Duration where
  "minDuration = - (2 ^ 63)"

definition maxDuration :: Duration where
  "maxDuration = 2 ^ 63 - 1"

definition Sub :: "Time \<Rightarrow> Time \<Rightarrow> Duration" where
  "Sub t u =
     (if t - u < minDuration then minDuration
      else if maxDuration < t - u then maxDuration
      else t - u)"

definition Since :: "Time \<Rightarrow> Time \<Rightarrow> Duration" where
  "Since now t = Sub now t"

definition wrap64 :: "int \<Rightarrow> int" where
  "wrap64 x = (x + 2 ^ 63) mod 2 ^ 64 - 2 ^ 63"

definition Minute :: Duration where
  "Minute = 60000000000"

definition Hour :: Duration where
  "Hour = 60 * Minute"

text \<open>
  Strings are byte lists. \<^verbatim>\<open>strings.ToLower\<close> is modelled on the ASCII letters, other
  bytes are kept: the engine only compares lowered strings with ASCII literals, and
  those tests cannot tell the difference. \<^verbatim>\<open>strings.Contains\<close> is the contiguous
  substring test.
\<close>

definition lowerByte :: "char \<Rightarrow> char" where
  "lowerByte c =
     (if 65 \<le> (of_char c :: nat) \<and> (of_char c :: nat) \<le> 90
      then char_of ((of_char c :: nat) + 32) else c)"

definition ToLower :: "string \<Rightarrow> string" where
  "ToLower s = map lowerByte s"

definition Contains :: "string \<Rightarrow> string \<Rightarrow> bool" where
  "Contains s substr = sublist substr s"

text \<open>
  A float32 is the rational number it denotes. \<open>f32\<close> rounds a rational to the nearest
  number with a 24-bit significand, ties to even, as every float32 conversion and
  operation of Go does. The exponent range is not modelled: the engine only forms
  float32 values from counts below \<open>2 ^ 63\<close>, their quotients and the products of those
  with 100, all far inside the range of normal float32 numbers.
\<close>

type_synonym float32 = rat

definition roundEven :: "rat \<Rightarrow> int" where
  "roundEven q =
     (let f = \<lfloor>q\<rfloor>; d = q - of_int f
      in if d < 1 / 2 then f
         else if 1 / 2 < d then f + 1
         else if even f then f else f + 1)"

definition exponent2 :: "rat \<Rightarrow> int" where
  "exponent2 x =
     (let e = bitlen (fst (quotient_of x)) - bitlen (snd (quotient_of x))
      in if x < 2 powi e then e - 1 else e)"

definition f32 :: "rat \<Rightarrow> float32" where
  "f32 x =
     (if x = 0 then 0
      else (let u = 2 powi (exponent2 \<bar>x\<bar> - 23)
            in sgn x * of_int (roundEven (\<bar>x\<bar> / u)) * u))"

definition percent :: "int \<Rightarrow> int \<Rightarrow> float32" where
  \<comment> \<open>\<^verbatim>\<open>float32(n) / float32(d) * 100\<close>\<close>
  "percent n d = f32 (f32 (f32 (of_int n) / f32 (of_int d)) * 100)"

text \<open>
  A Go map with string keys is the list of its entries, with distinct keys. Go leaves
  the order in which \<^verbatim>\<open>range\<close> visits a map unspecified, and randomises it: a function
  that ranges over a map parameter takes the entries in the order of that visit.
  \<open>append_group\<close> is \<^verbatim>\<open>groups[k] = append(groups[k], a)\<close>.
\<close>

type_synonym 'v gomap = "(string \<times> 'v) list"

fun append_group :: "string \<Rightarrow> 'a \<Rightarrow> 'a list gomap \<Rightarrow> 'a list gomap" where
  "append_group k a [] = [(k, [a])]"
| "append_group k a ((k', vs) # m) =
     (if k = k' then (k', vs @ [a]) # m else (k', vs) # append_group k a m)"

text \<open>
  \<^verbatim>\<open>sort.Slice\<close> sorts by a \<^verbatim>\<open>less\<close> function and is not stable in general. For a
  slice of at most 12 elements it runs the insertion sort below (element \<open>i\<close> moves left
  while it is less than its left neighbour); the sorted prefix is kept reversed here,
  its last element first. For a longer slice Go runs a pattern-defeating quicksort,
  which also returns a permutation of the slice in the order of \<^verbatim>\<open>less\<close>.
\<close>

fun insertLeft :: "('a \<Rightarrow> 'a \<Rightarrow> bool) \<Rightarrow> 'a \<Rightarrow> 'a list \<Rightarrow> 'a list" where
  "insertLeft lt x [] = [x]"
| "insertLeft lt x (y # ys) =
     (if lt x y then y # insertLeft lt x ys else x # y # ys)"

definition sort_Slice :: "('a \<Rightarrow> 'a \<Rightarrow> bool) \<Rightarrow> 'a list \<Rightarrow> 'a list" where
  "sort_Slice lt xs = rev (foldl (\<lambda>acc x. insertLeft lt x acc) [] xs)"

subsection \<open>The records\<close>

record AppIn =
  Number :: string
  Product :: string
  Type :: string
  Prename :: string
  DisplayName :: string
  DisplayNameEnglish :: string
  Status :: string
  FinanceAmount :: string
  Term :: string
  Executor :: string
  CreatedBy :: string
  CompletedAt :: "Time option"
  CreatedAt :: Time

record CAFinal =
  Number :: string
  DisplayName :: string
  Executor :: string
  Status :: string
  CompletedAt :: "Time option"
  CreatedAt :: Time

record BestTimeExecutor =
  DisplayName :: string
  BestTime :: Duration

record Conversion =
  Total :: int
  Converted :: int
  NotPassed :: int
  Rate :: float32
  Fastest :: int
  FastestPercent :: float32
  NeedAttention :: int
  BestTime :: Duration
  AverageTime :: Duration

record TimeInterval =
  Title :: string
  Total :: int

record Leaderboard =
  Rank :: int
  DisplayName :: string
  Total :: int
  Converted :: int
  ConversionRate :: float32
  AverageTime :: Duration
  BestTime :: Duration
  Performances :: "TimeInterval list"

record ProductMetrics =
  Name :: string
  Total :: int
  Converted :: int
  NotPassed :: int
  ConversionRate :: float32
  AverageTime :: Duration

record TopPerformer =
  DisplayName :: string
  Converted :: int
  ConversionRate :: float32

record performerMetric =
  DisplayName :: string
  Conversion :: Conversion
  Performances :: "TimeInterval list"

record CAFinalOverview =
  ActiveExecutor :: int
  TopPerformer :: TopPerformer
  Conversion :: Conversion
  TimeIntervalsByConverted :: "TimeInterval list"
  TimeIntervalsByPending :: "TimeInterval list"
  BestTimeUsed :: BestTimeExecutor
  Leaderboards :: "Leaderboard list"

record Overview =
  ActiveExecutor :: int
  TopPerformer :: TopPerformer
  Conversion :: Conversion
  TimeIntervalsByConverted :: "TimeInterval list"
  TimeIntervalsByPending :: "TimeInterval list"
  BestTimeUsed :: BestTimeExecutor
  Leaderboards :: "Leaderboard list"
  ProductMetrics :: "ProductMetrics list"
  CAFinalOverview :: "CAFinalOverview option"

subsection \<open>newConversion and newCAFinalConversion\<close>

text \<open>
  The local variables of the loop of \<^verbatim>\<open>newConversion\<close>. The counters are int64 in Go;
  each is at most the length of the slice, so none can wrap, and they are integers here.
  The running sum of durations does wrap.
\<close>

record tally =
  sumD :: Duration
  bestTime :: Duration
  fastestCount :: int
  needAttention :: int
  converted :: int
  notPassed :: int

definition tally0 :: tally where
  "tally0 = \<lparr>sumD = 0, bestTime = 0, fastestCount = 0, needAttention = 0,
             converted = 0, notPassed = 0\<rparr>"

definition threshold :: Duration where
  "threshold = 5 * Hour"

definition onConverted :: "Duration \<Rightarrow> tally \<Rightarrow> tally" where
  \<comment> \<open>the body of the first \<^verbatim>\<open>if\<close> of both conversion loops\<close>
  "onConverted duration v =
     (let v1 = v\<lparr>converted := converted v + 1, sumD := wrap64 (sumD v + duration)\<rparr>;
          v2 = (if duration \<le> Minute * 30
                then v1\<lparr>fastestCount := fastestCount v1 + 1\<rparr> else v1)
      in if (bestTime v2 = 0 \<or> duration < bestTime v2) \<and> duration \<ge> Minute
         then v2\<lparr>bestTime := duration\<rparr> else v2)"

definition onPending :: "Time \<Rightarrow> Time \<Rightarrow> tally \<Rightarrow> tally" where
  \<comment> \<open>the body of the second \<^verbatim>\<open>if\<close> of both conversion loops\<close>
  "onPending now createdAt v =
     (let duration = Since now createdAt
      in if duration > threshold then v\<lparr>needAttention := needAttention v + 1\<rparr> else v)"

definition newConversion_step :: "Time \<Rightarrow> tally \<Rightarrow> AppIn \<Rightarrow> tally" where
  "newConversion_step now v appIn =
     (let status = ToLower (AppIn.Status appIn);
          v1 = (if length status > 0 \<and> \<not> Contains status ''not pass''
                then (case AppIn.CompletedAt appIn of
                        Some completedAt \<Rightarrow>
                          onConverted (Sub completedAt (AppIn.CreatedAt appIn)) v
                      | None \<Rightarrow> v)
                else v);
          v2 = (if status = '''' \<and> AppIn.CompletedAt appIn = None
                then onPending now (AppIn.CreatedAt appIn) v1 else v1)
      in if Contains status ''not pass'' then v2\<lparr>notPassed := notPassed v2 + 1\<rparr> else v2)"

definition newConversion :: "Time \<Rightarrow> AppIn list \<Rightarrow> Conversion" where
  "newConversion now appIns =
     (let total = int (length appIns);
          v = foldl (newConversion_step now) tally0 appIns;
          processed = converted v + notPassed v
      in \<lparr>Conversion.Total = total,
          Conversion.Converted = converted v,
          Conversion.NotPassed = notPassed v,
          Conversion.Rate = (if total > 0 then percent processed total else 0),
          Conversion.Fastest = fastestCount v,
          Conversion.FastestPercent =
            (if processed > 0 then percent (fastestCount v) processed else 0),
          Conversion.NeedAttention = needAttention v,
          Conversion.BestTime = bestTime v,
          Conversion.AverageTime =
            (if total > 0 \<and> processed > 0 then sumD v sdiv processed else 0)\<rparr>)"

definition newCAFinalConversion_step :: "Time \<Rightarrow> tally \<Rightarrow> CAFinal \<Rightarrow> tally" where
  "newCAFinalConversion_step now v c =
     (let status = ToLower (CAFinal.Status c);
          v1 = (if length status > 0 \<and> status = ''completed''
                then (case CAFinal.CompletedAt c of
                        Some completedAt \<Rightarrow>
                          onConverted (Sub completedAt (CAFinal.CreatedAt c)) v
                      | None \<Rightarrow> v)
                else v)
      in if status \<noteq> ''completed'' \<and> CAFinal.CompletedAt c = None
         then onPending now (CAFinal.CreatedAt c) v1 else v1)"

definition newCAFinalConversion :: "Time \<Rightarrow> CAFinal list \<Rightarrow> Conversion" where
  "newCAFinalConversion now cs =
     (let total = int (length cs);
          v = foldl (newCAFinalConversion_step now) tally0 cs
      in \<lparr>Conversion.Total = total,
          Conversion.Converted = converted v,
          Conversion.NotPassed = 0,
          Conversion.Rate = (if total > 0 then percent (converted v) total else 0),
          Conversion.Fastest = fastestCount v,
          Conversion.FastestPercent =
            (if converted v > 0 then percent (fastestCount v) (converted v) else 0),
          Conversion.NeedAttention = needAttention v,
          Conversion.BestTime = bestTime v,
          Conversion.AverageTime =
            (if total > 0 \<and> converted v > 0 then sumD v sdiv converted v else 0)\<rparr>)"

subsection \<open>The divisions as Go evaluates them\<close>

text \<open>
  \<^verbatim>\<open>newConversion\<close> and \<^verbatim>\<open>newCAFinalConversion\<close> divide after their loops. In Go an
  int64 division by zero panics, and a float32 division by zero does not yield a
  number: \<^verbatim>\<open>0/0\<close> is NaN and \<^verbatim>\<open>x/0\<close> an infinity. The two functions above give the
  summary on the path that the code takes. The functions below run the same statements
  with every division as an operation that can go wrong: the outcome is \<open>Inr\<close> of the
  summary, or \<open>Inl\<close> of the first anomaly.
\<close>

datatype anomaly = DivisionPanic | NaN | PosInf | NegInf

definition quotient64 :: "int \<Rightarrow> int \<Rightarrow> anomaly + int" where
  \<comment> \<open>\<^verbatim>\<open>a / b\<close> on int64\<close>
  "quotient64 a b = (if b = 0 then Inl DivisionPanic else Inr (a sdiv b))"

definition quotient32 :: "float32 \<Rightarrow> float32 \<Rightarrow> anomaly + float32" where
  \<comment> \<open>\<^verbatim>\<open>a / b\<close> on float32\<close>
  "quotient32 a b =
     (if b = 0
      then (if a = 0 then Inl NaN else if 0 < a then Inl PosInf else Inl NegInf)
      else Inr (f32 (a / b)))"

definition percent_run :: "int \<Rightarrow> int \<Rightarrow> anomaly + float32" where
  \<comment> \<open>\<^verbatim>\<open>float32(n) / float32(d) * 100\<close>\<close>
  "percent_run n d =
     (case quotient32 (f32 (of_int n)) (f32 (of_int d)) of
        Inl e \<Rightarrow> Inl e
      | Inr q \<Rightarrow> Inr (f32 (q * 100)))"

definition newConversion_run :: "Time \<Rightarrow> AppIn list \<Rightarrow> anomaly + Conversion" where
  "newConversion_run now appIns =
     (let total = int (length appIns);
          v = foldl (newConversion_step now) tally0 appIns;
          processed = converted v + notPassed v
      in case (if total > 0 then percent_run processed total else Inr 0) of
           Inl e \<Rightarrow> Inl e
         | Inr conversionRate \<Rightarrow>
      (case (if total > 0 \<and> processed > 0 then quotient64 (sumD v) processed else Inr 0) of
           Inl e \<Rightarrow> Inl e
         | Inr averageTime \<Rightarrow>
      (case (if processed > 0 then percent_run (fastestCount v) processed else Inr 0) of
           Inl e \<Rightarrow> Inl e
         | Inr fastestPercent \<Rightarrow>
             Inr \<lparr>Conversion.Total = total,
                  Conversion.Converted = converted v,
                  Conversion.NotPassed = notPassed v,
                  Conversion.Rate = conversionRate,
                  Conversion.Fastest = fastestCount v,
                  Conversion.FastestPercent = fastestPercent,
                  Conversion.NeedAttention = needAttention v,
                  Conversion.BestTime = bestTime v,
                  Conversion.AverageTime = averageTime\<rparr>)))"

definition newCAFinalConversion_run :: "Time \<Rightarrow> CAFinal list \<Rightarrow> anomaly + Conversion" where
  "newCAFinalConversion_run now cs =
     (let total = int (length cs);
          v = foldl (newCAFinalConversion_step now) tally0 cs
      in case (if total > 0 then percent_run (converted v) total else Inr 0) of
           Inl e \<Rightarrow> Inl e
         | Inr conversionRate \<Rightarrow>
      (case (if total > 0 \<and> converted v > 0 then quotient64 (sumD v) (converted v) else Inr 0) of
           Inl e \<Rightarrow> Inl e
         | Inr averageTime \<Rightarrow>
      (case (if converted v > 0 then percent_run (fastestCount v) (converted v) else Inr 0) of
           Inl e \<Rightarrow> Inl e
         | Inr fastestPercent \<Rightarrow>
             Inr \<lparr>Conversion.Total = total,
                  Conversion.Converted = converted v,
                  Conversion.NotPassed = 0,
                  Conversion.Rate = conversionRate,
                  Conversion.Fastest = fastestCount v,
                  Conversion.FastestPercent = fastestPercent,
                  Conversion.NeedAttention = needAttention v,
                  Conversion.BestTime = bestTime v,
                  Conversion.AverageTime = averageTime\<rparr>)))"

subsection \<open>The duration histograms\<close>

definition titles :: "string list" where
  "titles = [''<30min'', ''<1h'', ''<2h'', ''<3h'', ''<4h'', ''<5h'', ''5h+'']"

definition count_of :: "(string \<rightharpoonup> int) \<Rightarrow> string \<Rightarrow> int" where
  \<comment> \<open>reading \<^verbatim>\<open>intervals[t]\<close>: a key that is absent reads as 0\<close>
  "count_of intervals t = (case intervals t of Some n \<Rightarrow> n | None \<Rightarrow> 0)"

definition incr :: "string \<Rightarrow> (string \<rightharpoonup> int) \<Rightarrow> (string \<rightharpoonup> int)" where
  \<comment> \<open>\<^verbatim>\<open>intervals[t]++\<close>\<close>
  "incr t intervals = intervals(t \<mapsto> count_of intervals t + 1)"

definition zeroIntervals :: "string \<rightharpoonup> int" where
  \<comment> \<open>\<^verbatim>\<open>for _, t := range titles { intervals[t] = 0 }\<close>\<close>
  "zeroIntervals = foldl (\<lambda>intervals t. intervals(t \<mapsto> 0)) Map.empty titles"

definition bucket :: "Duration \<Rightarrow> (string \<rightharpoonup> int) \<Rightarrow> (string \<rightharpoonup> int)" where
  \<comment> \<open>the \<^verbatim>\<open>switch\<close> on the duration, the same in all four histogram functions\<close>
  "bucket duration intervals =
     (if duration < 30 * Minute then incr ''<30min'' intervals
      else if duration < Hour then incr ''<1h'' intervals
      else if duration < 2 * Hour then incr ''<2h'' intervals
      else if duration < 3 * Hour then incr ''<3h'' intervals
      else if duration < 4 * Hour then incr ''<4h'' intervals
      else if duration < 5 * Hour then incr ''<5h'' intervals
      else incr ''5h+'' intervals)"

definition collect :: "(string \<rightharpoonup> int) \<Rightarrow> TimeInterval list" where
  \<comment> \<open>the closing loop over \<^verbatim>\<open>titles\<close>\<close>
  "collect intervals =
     map (\<lambda>t. \<lparr>TimeInterval.Title = t, TimeInterval.Total = count_of intervals t\<rparr>) titles"

definition createTimeIntervalsByConverted :: "AppIn list \<Rightarrow> TimeInterval list" where
  "createTimeIntervalsByConverted appIns =
     collect (foldl (\<lambda>intervals a.
        (let status = ToLower (AppIn.Status a)
         in if length (AppIn.Status a) > 0 \<and> \<not> Contains status ''not pass''
            then (case AppIn.CompletedAt a of
                    Some completedAt \<Rightarrow> bucket (Sub completedAt (AppIn.CreatedAt a)) intervals
                  | None \<Rightarrow> intervals)
            else intervals)) zeroIntervals appIns)"

definition createTimeIntervalsByPending :: "Time \<Rightarrow> AppIn list \<Rightarrow> TimeInterval list" where
  "createTimeIntervalsByPending now appIns =
     collect (foldl (\<lambda>intervals a.
        (if AppIn.Status a = '''' \<and> AppIn.CompletedAt a = None
         then bucket (Sub now (AppIn.CreatedAt a)) intervals
         else intervals)) zeroIntervals appIns)"

definition createCAFinalTimeIntervalsByConverted :: "CAFinal list \<Rightarrow> TimeInterval list" where
  "createCAFinalTimeIntervalsByConverted cs =
     collect (foldl (\<lambda>intervals a.
        (let status = ToLower (CAFinal.Status a)
         in if status = ''completed''
            then (case CAFinal.CompletedAt a of
                    Some completedAt \<Rightarrow> bucket (Sub completedAt (CAFinal.CreatedAt a)) intervals
                  | None \<Rightarrow> intervals)
            else intervals)) zeroIntervals cs)"

definition createCAFinalTimeIntervalsByPending :: "Time \<Rightarrow> CAFinal list \<Rightarrow> TimeInterval list" where
  "createCAFinalTimeIntervalsByPending now cs =
     collect (foldl (\<lambda>intervals a.
        (if ToLower (CAFinal.Status a) \<noteq> ''completed'' \<and> CAFinal.CompletedAt a = None
         then bucket (Sub now (CAFinal.CreatedAt a)) intervals
         else intervals)) zeroIntervals cs)"

subsection \<open>Grouping\<close>

definition groupAppInByExecutor :: "AppIn list \<Rightarrow> AppIn list gomap" where
  "groupAppInByExecutor appIns =
     foldl (\<lambda>groups a.
        if AppIn.Executor a = '''' then groups
        else append_group (AppIn.Executor a) a groups) [] appIns"

definition groupCAFinalByExecutor :: "CAFinal list \<Rightarrow> CAFinal list gomap" where
  "groupCAFinalByExecutor appIns =
     foldl (\<lambda>groups a.
        if CAFinal.Executor a = '''' then groups
        else append_group (CAFinal.Executor a) a groups) [] appIns"

definition groupAppInByProduct_step :: "AppIn list gomap \<Rightarrow> AppIn \<Rightarrow> AppIn list gomap" where
  "groupAppInByProduct_step groups a =
     (if AppIn.Type a = '''' then groups
      else if ToLower (AppIn.Product a) = ''sale auto''
      then (if Contains (ToLower (AppIn.Type a)) ''c4c''
            then append_group (''C4C | '' @ AppIn.Product a) a groups
            else if Contains (ToLower (AppIn.Type a)) ''used car''
            then append_group (''Used Car | '' @ AppIn.Product a) a groups
            else if Contains (ToLower (AppIn.Type a)) ''mc''
            then append_group (''MC | '' @ AppIn.Product a) a groups
            else append_group (AppIn.Product a) a groups)
      else append_group (AppIn.Product a) a groups)"

definition groupAppInByProduct :: "AppIn list \<Rightarrow> AppIn list gomap" where
  "groupAppInByProduct appIns = foldl groupAppInByProduct_step [] appIns"

subsection \<open>Performer metrics, top performer, leaderboard, best time\<close>

text \<open>
  The two \<^verbatim>\<open>calculate...ByExecutor\<close> functions range over a map to build a map: the
  order of that visit cannot be observed in the result.
\<close>

definition calculatePerformanceConversionMetricsByExecutor ::
  "Time \<Rightarrow> AppIn list gomap \<Rightarrow> performerMetric gomap" where
  "calculatePerformanceConversionMetricsByExecutor now groups =
     map (\<lambda>(executor, apps).
        (executor, \<lparr>performerMetric.DisplayName = executor,
                    performerMetric.Conversion = newConversion now apps,
                    performerMetric.Performances = createTimeIntervalsByConverted apps\<rparr>))
       groups"

definition calculateCAFinalConversionMetricsByExecutor ::
  "Time \<Rightarrow> CAFinal list gomap \<Rightarrow> performerMetric gomap" where
  "calculateCAFinalConversionMetricsByExecutor now groups =
     map (\<lambda>(executor, cs).
        (executor, \<lparr>performerMetric.DisplayName = executor,
                    performerMetric.Conversion = newCAFinalConversion now cs,
                    performerMetric.Performances = createCAFinalTimeIntervalsByConverted cs\<rparr>))
       groups"

definition getTopPerformer_step :: "TopPerformer \<Rightarrow> string \<times> performerMetric \<Rightarrow> TopPerformer" where
  "getTopPerformer_step topp ec =
     (case ec of (executor, c) \<Rightarrow>
        if Conversion.Converted (performerMetric.Conversion c) > TopPerformer.Converted topp
           \<or> (Conversion.Converted (performerMetric.Conversion c) = TopPerformer.Converted topp
              \<and> Conversion.Rate (performerMetric.Conversion c) > TopPerformer.ConversionRate topp)
        then topp\<lparr>TopPerformer.DisplayName := executor,
                 TopPerformer.Converted := Conversion.Converted (performerMetric.Conversion c),
                 TopPerformer.ConversionRate := Conversion.Rate (performerMetric.Conversion c)\<rparr>
        else topp)"

definition getTopPerformer :: "performerMetric gomap \<Rightarrow> TopPerformer" where
  "getTopPerformer conversions =
     foldl getTopPerformer_step
       \<lparr>TopPerformer.DisplayName = '''', TopPerformer.Converted = 0,
        TopPerformer.ConversionRate = 0\<rparr> conversions"

definition performerLess :: "performerMetric \<Rightarrow> performerMetric \<Rightarrow> bool" where
  \<comment> \<open>the \<^verbatim>\<open>less\<close> function of \<^verbatim>\<open>createLeaderboards\<close>\<close>
  "performerLess p q =
     (if Conversion.Converted (performerMetric.Conversion p)
           \<noteq> Conversion.Converted (performerMetric.Conversion q)
      then Conversion.Converted (performerMetric.Conversion p)
             > Conversion.Converted (performerMetric.Conversion q)
      else if Conversion.Rate (performerMetric.Conversion p)
           \<noteq> Conversion.Rate (performerMetric.Conversion q)
      then Conversion.Rate (performerMetric.Conversion p)
             > Conversion.Rate (performerMetric.Conversion q)
      else Conversion.AverageTime (performerMetric.Conversion p)
             < Conversion.AverageTime (performerMetric.Conversion q))"

definition newLeaderboard :: "nat \<Rightarrow> performerMetric \<Rightarrow> Leaderboard" where
  \<comment> \<open>the entry appended for the performer at index \<open>i\<close>\<close>
  "newLeaderboard i p =
     \<lparr>Leaderboard.Rank = int (i + 1),
      Leaderboard.DisplayName = performerMetric.DisplayName p,
      Leaderboard.Total = Conversion.Total (performerMetric.Conversion p),
      Leaderboard.Converted = Conversion.Converted (performerMetric.Conversion p),
      Leaderboard.ConversionRate = Conversion.Rate (performerMetric.Conversion p),
      Leaderboard.AverageTime = Conversion.AverageTime (performerMetric.Conversion p),
      Leaderboard.BestTime = Conversion.BestTime (performerMetric.Conversion p),
      Leaderboard.Performances = performerMetric.Performances p\<rparr>"

fun leaderboardLoop :: "nat \<Rightarrow> performerMetric list \<Rightarrow> Leaderboard list \<Rightarrow> Leaderboard list" where
  "leaderboardLoop i [] leaderboards = leaderboards"
| "leaderboardLoop i (p # ps) leaderboards =
     (let leaderboards' = leaderboards @ [newLeaderboard i p]
      in if length leaderboards' \<ge> 5 then leaderboards'
         else leaderboardLoop (i + 1) ps leaderboards')"

definition createLeaderboards :: "performerMetric gomap \<Rightarrow> Leaderboard list" where
  "createLeaderboards conversions =
     (let performers = map snd conversions
      in leaderboardLoop 0 (sort_Slice performerLess performers) [])"

definition findBestTime_step ::
  "string \<times> Duration \<Rightarrow> string \<times> performerMetric \<Rightarrow> string \<times> Duration" where
  "findBestTime_step best em =
     (case (best, em) of ((bestExecutor, bestTime'), (executor, metric)) \<Rightarrow>
        if Conversion.BestTime (performerMetric.Conversion metric) > 0
        then (if bestTime' = 0 \<or> Conversion.BestTime (performerMetric.Conversion metric) < bestTime'
              then (executor, Conversion.BestTime (performerMetric.Conversion metric))
              else (bestExecutor, bestTime'))
        else (bestExecutor, bestTime'))"

definition findBestTimeUsedByExecutor :: "performerMetric gomap \<Rightarrow> BestTimeExecutor" where
  "findBestTimeUsedByExecutor p =
     (if length p = 0
      then \<lparr>BestTimeExecutor.DisplayName = ''N/A'', BestTimeExecutor.BestTime = 0\<rparr>
      else (case foldl findBestTime_step ('''', 0) p of (bestExecutor, bestTime') \<Rightarrow>
              \<lparr>BestTimeExecutor.DisplayName = bestExecutor,
               BestTimeExecutor.BestTime = bestTime'\<rparr>))"

subsection \<open>Product metrics\<close>

definition productLess :: "ProductMetrics \<Rightarrow> ProductMetrics \<Rightarrow> bool" where
  \<comment> \<open>the \<^verbatim>\<open>less\<close> function of \<^verbatim>\<open>calculatePerformanceConversionMetricsByProduct\<close>\<close>
  "productLess p q =
     (if ProductMetrics.Converted p \<noteq> ProductMetrics.Converted q
      then ProductMetrics.Converted p > ProductMetrics.Converted q
      else if ProductMetrics.ConversionRate p \<noteq> ProductMetrics.ConversionRate q
      then ProductMetrics.ConversionRate p > ProductMetrics.ConversionRate q
      else ProductMetrics.AverageTime p < ProductMetrics.AverageTime q)"

definition newProductMetrics :: "Time \<Rightarrow> string \<times> AppIn list \<Rightarrow> ProductMetrics" where
  "newProductMetrics now pa =
     (case pa of (product, apps) \<Rightarrow>
        (let c = newConversion now apps
         in \<lparr>ProductMetrics.Name = product,
             ProductMetrics.Total = int (length apps),
             ProductMetrics.Converted = Conversion.Converted c,
             ProductMetrics.NotPassed = Conversion.NotPassed c,
             ProductMetrics.ConversionRate = Conversion.Rate c,
             ProductMetrics.AverageTime = Conversion.AverageTime c\<rparr>))"

text \<open>
  This function builds the map and ranges over it itself, so the order of the visit is
  its first parameter: \<open>visit\<close> turns the entries of the map into the order in which
  \<^verbatim>\<open>range\<close> yields them.
\<close>

definition calculatePerformanceConversionMetricsByProduct ::
  "(AppIn list gomap \<Rightarrow> AppIn list gomap) \<Rightarrow> Time \<Rightarrow> AppIn list \<Rightarrow> ProductMetrics list" where
  "calculatePerformanceConversionMetricsByProduct visit now appIns =
     (let groups = groupAppInByProduct appIns;
          products = map (newProductMetrics now) (visit groups)
      in sort_Slice productLess products)"

subsection \<open>The Overview\<close>

text \<open>
  One run of the engine ranges over the performer map three times and over the product
  map once, each time in an order of the runtime's choosing. A \<open>schedule\<close> holds these
  choices; it is \<open>permuting\<close> when each visit yields every entry exactly once, which is
  all that Go promises.
\<close>

record schedule =
  topVisit :: "performerMetric gomap \<Rightarrow> performerMetric gomap"
  boardVisit :: "performerMetric gomap \<Rightarrow> performerMetric gomap"
  bestVisit :: "performerMetric gomap \<Rightarrow> performerMetric gomap"
  productVisit :: "AppIn list gomap \<Rightarrow> AppIn list gomap"

definition permuting :: "schedule \<Rightarrow> bool" where
  "permuting s \<longleftrightarrow>
     (\<forall>m. mset (topVisit s m) = mset m) \<and> (\<forall>m. mset (boardVisit s m) = mset m) \<and>
     (\<forall>m. mset (bestVisit s m) = mset m) \<and> (\<forall>m. mset (productVisit s m) = mset m)"

definition inOrder :: schedule where
  "inOrder = \<lparr>topVisit = (\<lambda>m. m), boardVisit = (\<lambda>m. m), bestVisit = (\<lambda>m. m),
              productVisit = (\<lambda>m. m)\<rparr>"

definition reversed :: schedule where
  "reversed = \<lparr>topVisit = rev, boardVisit = rev, bestVisit = rev, productVisit = rev\<rparr>"

definition newOverview :: "schedule \<Rightarrow> Time \<Rightarrow> AppIn list \<Rightarrow> Overview" where
  "newOverview s now appIns =
     (let groups = groupAppInByExecutor appIns;
          performances = calculatePerformanceConversionMetricsByExecutor now groups
      in \<lparr>Overview.ActiveExecutor = int (length groups),
          Overview.TopPerformer = getTopPerformer (topVisit s performances),
          Overview.Conversion = newConversion now appIns,
          Overview.TimeIntervalsByConverted = createTimeIntervalsByConverted appIns,
          Overview.TimeIntervalsByPending = createTimeIntervalsByPending now appIns,
          Overview.BestTimeUsed = findBestTimeUsedByExecutor (bestVisit s performances),
          Overview.Leaderboards = createLeaderboards (boardVisit s performances),
          Overview.ProductMetrics =
            calculatePerformanceConversionMetricsByProduct (productVisit s) now appIns,
          Overview.CAFinalOverview = None\<rparr>)"

definition newCAFinalOverview :: "schedule \<Rightarrow> Time \<Rightarrow> CAFinal list \<Rightarrow> CAFinalOverview" where
  "newCAFinalOverview s now appins =
     (let groups = groupCAFinalByExecutor appins;
          performances = calculateCAFinalConversionMetricsByExecutor now groups
      in \<lparr>CAFinalOverview.ActiveExecutor = int (length groups),
          CAFinalOverview.TopPerformer = getTopPerformer (topVisit s performances),
          CAFinalOverview.Conversion = newCAFinalConversion now appins,
          CAFinalOverview.TimeIntervalsByConverted = createCAFinalTimeIntervalsByConverted appins,
          CAFinalOverview.TimeIntervalsByPending = createCAFinalTimeIntervalsByPending now appins,
          CAFinalOverview.BestTimeUsed = findBestTimeUsedByExecutor (bestVisit s performances),
          CAFinalOverview.Leaderboards = createLeaderboards (boardVisit s performances)\<rparr>)"

definition SetCAFinal :: "schedule \<Rightarrow> Time \<Rightarrow> Overview \<Rightarrow> CAFinal list \<Rightarrow> Overview" where
  "SetCAFinal s now ov ca = ov\<lparr>Overview.CAFinalOverview := Some (newCAFinalOverview s now ca)\<rparr>"

subsection \<open>The run of the Overview\<close>

text \<open>
  The Overview with the divisions as operations that can go wrong: every call of
  \<^verbatim>\<open>newConversion\<close> and \<^verbatim>\<open>newCAFinalConversion\<close> is a run, and an anomaly in one of them
  is the outcome of the whole. \<open>each_run\<close> runs a function on every element of a list.
\<close>

fun each_run :: "('a \<Rightarrow> anomaly + 'b) \<Rightarrow> 'a list \<Rightarrow> anomaly + 'b list" where
  "each_run f [] = Inr []"
| "each_run f (x # xs) =
     (case f x of
        Inl e \<Rightarrow> Inl e
      | Inr y \<Rightarrow> (case each_run f xs of Inl e \<Rightarrow> Inl e | Inr ys \<Rightarrow> Inr (y # ys)))"

definition calculatePerformanceConversionMetricsByExecutor_run ::
  "Time \<Rightarrow> AppIn list gomap \<Rightarrow> anomaly + performerMetric gomap" where
  "calculatePerformanceConversionMetricsByExecutor_run now groups =
     each_run (\<lambda>(executor, apps).
        case newConversion_run now apps of
          Inl e \<Rightarrow> Inl e
        | Inr c \<Rightarrow>
            Inr (executor, \<lparr>performerMetric.DisplayName = executor,
                            performerMetric.Conversion = c,
                            performerMetric.Performances = createTimeIntervalsByConverted apps\<rparr>))
       groups"

definition calculateCAFinalConversionMetricsByExecutor_run ::
  "Time \<Rightarrow> CAFinal list gomap \<Rightarrow> anomaly + performerMetric gomap" where
  "calculateCAFinalConversionMetricsByExecutor_run now groups =
     each_run (\<lambda>(executor, cs).
        case newCAFinalConversion_run now cs of
          Inl e \<Rightarrow> Inl e
        | Inr c \<Rightarrow>
            Inr (executor, \<lparr>performerMetric.DisplayName = executor,
                            performerMetric.Conversion = c,
                            performerMetric.Performances = createCAFinalTimeIntervalsByConverted cs\<rparr>))
       groups"

definition newProductMetrics_run :: "Time \<Rightarrow> string \<times> AppIn list \<Rightarrow> anomaly + ProductMetrics" where
  "newProductMetrics_run now pa =
     (case pa of (product, apps) \<Rightarrow>
        (case newConversion_run now apps of
           Inl e \<Rightarrow> Inl e
         | Inr c \<Rightarrow>
             Inr \<lparr>ProductMetrics.Name = product,
                  ProductMetrics.Total = int (length apps),
                  ProductMetrics.Converted = Conversion.Converted c,
                  ProductMetrics.NotPassed = Conversion.NotPassed c,
                  ProductMetrics.ConversionRate = Conversion.Rate c,
                  ProductMetrics.AverageTime = Conversion.AverageTime c\<rparr>))"

definition calculatePerformanceConversionMetricsByProduct_run ::
  "(AppIn list gomap \<Rightarrow> AppIn list gomap) \<Rightarrow> Time \<Rightarrow> AppIn list
     \<Rightarrow> anomaly + ProductMetrics list" where
  "calculatePerformanceConversionMetricsByProduct_run visit now appIns =
     (let groups = groupAppInByProduct appIns
      in case each_run (newProductMetrics_run now) (visit groups) of
           Inl e \<Rightarrow> Inl e
         | Inr products \<Rightarrow> Inr (sort_Slice productLess products))"

definition newOverview_run :: "schedule \<Rightarrow> Time \<Rightarrow> AppIn list \<Rightarrow> anomaly + Overview" where
  "newOverview_run s now appIns =
     (let groups = groupAppInByExecutor appIns
      in case calculatePerformanceConversionMetricsByExecutor_run now groups of
           Inl e \<Rightarrow> Inl e
         | Inr performances \<Rightarrow>
      (case newConversion_run now appIns of
           Inl e \<Rightarrow> Inl e
         | Inr conversion \<Rightarrow>
      (case calculatePerformanceConversionMetricsByProduct_run (productVisit s) now appIns of
           Inl e \<Rightarrow> Inl e
         | Inr productMetrics \<Rightarrow>
             Inr \<lparr>Overview.ActiveExecutor = int (length groups),
                  Overview.TopPerformer = getTopPerformer (topVisit s performances),
                  Overview.Conversion = conversion,
                  Overview.TimeIntervalsByConverted = createTimeIntervalsByConverted appIns,
                  Overview.TimeIntervalsByPending = createTimeIntervalsByPending now appIns,
                  Overview.BestTimeUsed = findBestTimeUsedByExecutor (bestVisit s performances),
                  Overview.Leaderboards = createLeaderboards (boardVisit s performances),
                  Overview.ProductMetrics = productMetrics,
                  Overview.CAFinalOverview = None\<rparr>)))"

definition newCAFinalOverview_run ::
  "schedule \<Rightarrow> Time \<Rightarrow> CAFinal list \<Rightarrow> anomaly + CAFinalOverview" where
  "newCAFinalOverview_run s now appins =
     (let groups = groupCAFinalByExecutor appins
      in case calculateCAFinalConversionMetricsByExecutor_run now groups of
           Inl e \<Rightarrow> Inl e
         | Inr performances \<Rightarrow>
      (case newCAFinalConversion_run now appins of
           Inl e \<Rightarrow> Inl e
         | Inr conversion \<Rightarrow>
             Inr \<lparr>CAFinalOverview.ActiveExecutor = int (length groups),
                  CAFinalOverview.TopPerformer = getTopPerformer (topVisit s performances),
                  CAFinalOverview.Conversion = conversion,
                  CAFinalOverview.TimeIntervalsByConverted =
                    createCAFinalTimeIntervalsByConverted appins,
                  CAFinalOverview.TimeIntervalsByPending =
                    createCAFinalTimeIntervalsByPending now appins,
                  CAFinalOverview.BestTimeUsed =
                    findBestTimeUsedByExecutor (bestVisit s performances),
                  CAFinalOverview.Leaderboards =
                    createLeaderboards (boardVisit s performances)\<rparr>))"

subsection \<open>Reference definitions for the properties\<close>

text \<open>
  The three dispositions of an Application record, as the guards of \<^verbatim>\<open>newConversion\<close>
  and of the histogram functions test them, and the two durations they measure.
\<close>

definition isConverted :: "AppIn \<Rightarrow> bool" where
  "isConverted a \<longleftrightarrow>
     AppIn.Status a \<noteq> '''' \<and> \<not> Contains (ToLower (AppIn.Status a)) ''not pass''
     \<and> AppIn.CompletedAt a \<noteq> None"

definition isNotPassed :: "AppIn \<Rightarrow> bool" where
  "isNotPassed a \<longleftrightarrow> Contains (ToLower (AppIn.Status a)) ''not pass''"

definition isPending :: "AppIn \<Rightarrow> bool" where
  "isPending a \<longleftrightarrow> AppIn.Status a = '''' \<and> AppIn.CompletedAt a = None"

definition unclassified :: "AppIn \<Rightarrow> bool" where
  "unclassified a \<longleftrightarrow>
     (AppIn.Status a = '''' \<and> AppIn.CompletedAt a \<noteq> None)
     \<or> (AppIn.Status a \<noteq> '''' \<and> \<not> Contains (ToLower (AppIn.Status a)) ''not pass''
        \<and> AppIn.CompletedAt a = None)"

definition elapsed :: "AppIn \<Rightarrow> Duration" where
  "elapsed a =
     (case AppIn.CompletedAt a of Some completedAt \<Rightarrow> Sub completedAt (AppIn.CreatedAt a)
      | None \<Rightarrow> 0)"

definition age :: "Time \<Rightarrow> AppIn \<Rightarrow> Duration" where
  "age now a = Sub now (AppIn.CreatedAt a)"

text \<open>The same for a Review record.\<close>

definition isCompletedCA :: "CAFinal \<Rightarrow> bool" where
  "isCompletedCA c \<longleftrightarrow>
     ToLower (CAFinal.Status c) = ''completed'' \<and> CAFinal.CompletedAt c \<noteq> None"

definition isPendingCA :: "CAFinal \<Rightarrow> bool" where
  "isPendingCA c \<longleftrightarrow>
     ToLower (CAFinal.Status c) \<noteq> ''completed'' \<and> CAFinal.CompletedAt c = None"

definition elapsedCA :: "CAFinal \<Rightarrow> Duration" where
  "elapsedCA c =
     (case CAFinal.CompletedAt c of Some completedAt \<Rightarrow> Sub completedAt (CAFinal.CreatedAt c)
      | None \<Rightarrow> 0)"

definition ageCA :: "Time \<Rightarrow> CAFinal \<Rightarrow> Duration" where
  "ageCA now c = Sub now (CAFinal.CreatedAt c)"

text \<open>
  The dispositions in the words of the specification, which tests the status for
  ``not passed''.
\<close>

definition statedConverted :: "AppIn \<Rightarrow> bool" where
  "statedConverted a \<longleftrightarrow>
     AppIn.Status a \<noteq> '''' \<and> \<not> Contains (ToLower (AppIn.Status a)) ''not passed''
     \<and> AppIn.CompletedAt a \<noteq> None"

definition statedNotPassed :: "AppIn \<Rightarrow> bool" where
  "statedNotPassed a \<longleftrightarrow> Contains (ToLower (AppIn.Status a)) ''not passed''"

definition statedPending :: "AppIn \<Rightarrow> bool" where
  "statedPending a \<longleftrightarrow> AppIn.Status a = '''' \<and> AppIn.CompletedAt a = None"

definition number :: "('a \<Rightarrow> bool) \<Rightarrow> 'a list \<Rightarrow> int" where
  \<comment> \<open>how many elements of a list satisfy a predicate\<close>
  "number P xs = int (length (filter P xs))"

text \<open>The bucket of a duration: the title that the \<^verbatim>\<open>switch\<close> increments.\<close>

definition bucketTitle :: "Duration \<Rightarrow> string" where
  "bucketTitle d =
     (if d < 30 * Minute then ''<30min''
      else if d < Hour then ''<1h''
      else if d < 2 * Hour then ''<2h''
      else if d < 3 * Hour then ''<3h''
      else if d < 4 * Hour then ''<4h''
      else if d < 5 * Hour then ''<5h''
      else ''5h+'')"

text \<open>
  The key under which the specification files a record by product: the raw product
  label, but for the aliased product ``sale auto'' the first of three prefixes whose
  alias occurs in the type.
\<close>

definition aliases :: "(string \<times> string) list" where
  "aliases = [(''c4c'', ''C4C | ''), (''used car'', ''Used Car | ''), (''mc'', ''MC | '')]"

definition productKey :: "AppIn \<Rightarrow> string" where
  "productKey a =
     (if ToLower (AppIn.Product a) = ''sale auto''
      then (case filter (\<lambda>(alias, canonical). Contains (ToLower (AppIn.Type a)) alias) aliases of
              [] \<Rightarrow> AppIn.Product a
            | (alias, canonical) # _ \<Rightarrow> canonical @ AppIn.Product a)
      else AppIn.Product a)"

text \<open>
  The order of the leaderboard in the words of the specification: converted count
  descending, then conversion rate descending, then average time ascending.
\<close>

definition rankedBefore :: "Leaderboard \<Rightarrow> Leaderboard \<Rightarrow> bool" where
  "rankedBefore a b \<longleftrightarrow>
     Leaderboard.Converted a > Leaderboard.Converted b
     \<or> (Leaderboard.Converted a = Leaderboard.Converted b
        \<and> (Leaderboard.ConversionRate a > Leaderboard.ConversionRate b
           \<or> (Leaderboard.ConversionRate a = Leaderboard.ConversionRate b
              \<and> Leaderboard.AverageTime a \<le> Leaderboard.AverageTime b)))"

text \<open>
  The histogram of a list in the words of the specification: for every title, in the
  fixed order, the number of records that satisfy the classification predicate and
  whose duration falls into the bucket of that title.
\<close>

definition histogramOf :: "('a \<Rightarrow> bool) \<Rightarrow> ('a \<Rightarrow> Duration) \<Rightarrow> 'a list \<Rightarrow> TimeInterval list" where
  "histogramOf P d xs =
     map (\<lambda>t. \<lparr>TimeInterval.Title = t,
               TimeInterval.Total = number (\<lambda>a. P a \<and> bucketTitle (d a) = t) xs\<rparr>) titles"

text \<open>
  The group of a key in the words of the specification: the records that are kept and
  have this key, in the order of the input; a key that no kept record has is absent.
\<close>

definition grouped :: "('a \<Rightarrow> bool) \<Rightarrow> ('a \<Rightarrow> string) \<Rightarrow> 'a list \<Rightarrow> string \<Rightarrow> 'a list option" where
  "grouped keep key xs k =
     (case filter (\<lambda>a. keep a \<and> key a = k) xs of [] \<Rightarrow> None | a # g \<Rightarrow> Some (a # g))"

text \<open>
  The best time in the words of the specification: the least of the elapsed times of
  the converted records that reach the floor of one minute, and 0 when there is none.
\<close>

definition qualifying :: "AppIn list \<Rightarrow> Duration list" where
  "qualifying appIns = map elapsed (filter (\<lambda>a. isConverted a \<and> Minute \<le> elapsed a) appIns)"

definition least :: "Duration list \<Rightarrow> Duration" where
  "least ds = (if ds = [] then 0 else Min (set ds))"


text \<open>The best time that an entry of the performer map carries.\<close>

definition bestOf :: "string \<times> performerMetric \<Rightarrow> Duration" where
  "bestOf em = Conversion.BestTime (performerMetric.Conversion (snd em))"







text \<open>
  An input is free of ties at a given time when no two performers have the same
  converted count and conversion rate, or the same non-zero best time, and no two
  products have the same converted count, conversion rate and average time.
\<close>

definition performances :: "Time \<Rightarrow> AppIn list \<Rightarrow> performerMetric gomap" where
  "performances now appIns =
     calculatePerformanceConversionMetricsByExecutor now (groupAppInByExecutor appIns)"


text \<open>Sample records.\<close>

definition sample :: "string \<Rightarrow> string \<Rightarrow> Time option \<Rightarrow> Time \<Rightarrow> AppIn" where
  "sample executor status completedAt createdAt =
     \<lparr>AppIn.Number = ''LO-1'', AppIn.Product = ''Sale Auto'', AppIn.Type = ''New MC'',
      AppIn.Prename = '''', AppIn.DisplayName = '''', AppIn.DisplayNameEnglish = '''',
      AppIn.Status = status, AppIn.FinanceAmount = '''', AppIn.Term = '''',
      AppIn.Executor = executor, AppIn.CreatedBy = '''',
      AppIn.CompletedAt = completedAt, AppIn.CreatedAt = createdAt\<rparr>"

definition sampleCA :: "string \<Rightarrow> string \<Rightarrow> Time option \<Rightarrow> Time \<Rightarrow> CAFinal" where
  "sampleCA executor status completedAt createdAt =
     \<lparr>CAFinal.Number = ''FL-1'', CAFinal.DisplayName = '''', CAFinal.Executor = executor,
      CAFinal.Status = status, CAFinal.CompletedAt = completedAt,
      CAFinal.CreatedAt = createdAt\<rparr>"



section \<open>Properties\<close>

subsection \<open>The counters of the conversion loop\<close>

lemma Contains_Nil [simp]: "Contains [] (c # cs) = False"
  by (simp add: Contains_def)

lemma ToLower_eq_Nil [simp]: "ToLower s = [] \<longleftrightarrow> s = []"
  by (simp add: ToLower_def)

lemma ToLower_Nil [simp]: "ToLower [] = []"
  by (simp add: ToLower_def)

lemma dispositions_exclusive:
  "\<not> (isConverted a \<and> isNotPassed a)" "\<not> (isConverted a \<and> isPending a)"
  "\<not> (isNotPassed a \<and> isPending a)"
  by (auto simp: isConverted_def isNotPassed_def isPending_def)

lemma dispositions_cases:
  "isConverted a \<or> isNotPassed a \<or> isPending a \<or> unclassified a"
  by (auto simp: isConverted_def isNotPassed_def isPending_def unclassified_def)

lemma unclassified_iff:
  "unclassified a \<longleftrightarrow> \<not> isConverted a \<and> \<not> isNotPassed a \<and> \<not> isPending a"
  by (auto simp: isConverted_def isNotPassed_def isPending_def unclassified_def)

lemma onConverted_fields:
  "converted (onConverted d v) = converted v + 1"
  "notPassed (onConverted d v) = notPassed v"
  "needAttention (onConverted d v) = needAttention v"
  "sumD (onConverted d v) = wrap64 (sumD v + d)"
  "fastestCount (onConverted d v) = fastestCount v + (if d \<le> 30 * Minute then 1 else 0)"
  "bestTime (onConverted d v) =
     (if (bestTime v = 0 \<or> d < bestTime v) \<and> Minute \<le> d then d else bestTime v)"
  by (simp_all add: onConverted_def Let_def mult.commute)

lemma onPending_fields:
  "converted (onPending now t v) = converted v"
  "notPassed (onPending now t v) = notPassed v"
  "needAttention (onPending now t v) = needAttention v + (if Sub now t > threshold then 1 else 0)"
  "sumD (onPending now t v) = sumD v"
  "fastestCount (onPending now t v) = fastestCount v"
  "bestTime (onPending now t v) = bestTime v"
  by (simp_all add: onPending_def Let_def Since_def)

lemma step_converted:
  "converted (newConversion_step now v a) = converted v + (if isConverted a then 1 else 0)"
  by (cases "AppIn.CompletedAt a")
     (simp_all add: newConversion_step_def Let_def isConverted_def onConverted_fields onPending_fields)

lemma step_notPassed:
  "notPassed (newConversion_step now v a) = notPassed v + (if isNotPassed a then 1 else 0)"
  by (cases "AppIn.CompletedAt a")
     (simp_all add: newConversion_step_def Let_def isNotPassed_def onConverted_fields onPending_fields)

lemma step_needAttention:
  "needAttention (newConversion_step now v a) =
     needAttention v + (if isPending a \<and> age now a > threshold then 1 else 0)"
  by (cases "AppIn.CompletedAt a")
     (simp_all add: newConversion_step_def Let_def isPending_def age_def onConverted_fields onPending_fields)

lemma step_fastestCount:
  "fastestCount (newConversion_step now v a) =
     fastestCount v + (if isConverted a \<and> elapsed a \<le> 30 * Minute then 1 else 0)"
  by (cases "AppIn.CompletedAt a")
     (simp_all add: newConversion_step_def Let_def isConverted_def elapsed_def onConverted_fields onPending_fields)

lemma step_sumD:
  "sumD (newConversion_step now v a) =
     (if isConverted a then wrap64 (sumD v + elapsed a) else sumD v)"
  by (cases "AppIn.CompletedAt a")
     (simp_all add: newConversion_step_def Let_def isConverted_def elapsed_def onConverted_fields onPending_fields)

lemma step_bestTime:
  "bestTime (newConversion_step now v a) =
     (if isConverted a \<and> (bestTime v = 0 \<or> elapsed a < bestTime v) \<and> Minute \<le> elapsed a
      then elapsed a else bestTime v)"
  by (cases "AppIn.CompletedAt a")
     (simp_all add: newConversion_step_def Let_def isConverted_def elapsed_def onConverted_fields onPending_fields)

lemma number_Nil [simp]: "number P [] = 0"
  by (simp add: number_def)

lemma number_Cons [simp]: "number P (x # xs) = (if P x then 1 else 0) + number P xs"
  by (simp add: number_def)

lemma number_append [simp]: "number P (xs @ ys) = number P xs + number P ys"
  by (simp add: number_def)

lemma number_nonneg [simp]: "0 \<le> number P xs"
  by (simp add: number_def)

lemma loop_converted:
  "converted (foldl (newConversion_step now) v xs) = converted v + number isConverted xs"
  by (induction xs arbitrary: v) (simp_all add: step_converted)

lemma loop_notPassed:
  "notPassed (foldl (newConversion_step now) v xs) = notPassed v + number isNotPassed xs"
  by (induction xs arbitrary: v) (simp_all add: step_notPassed)

lemma loop_needAttention:
  "needAttention (foldl (newConversion_step now) v xs) =
     needAttention v + number (\<lambda>a. isPending a \<and> age now a > threshold) xs"
  by (induction xs arbitrary: v) (simp_all add: step_needAttention)

lemma loop_fastestCount:
  "fastestCount (foldl (newConversion_step now) v xs) =
     fastestCount v + number (\<lambda>a. isConverted a \<and> elapsed a \<le> 30 * Minute) xs"
  by (induction xs arbitrary: v) (simp_all add: step_fastestCount)

lemma tally0_fields [simp]:
  "converted tally0 = 0" "notPassed tally0 = 0" "needAttention tally0 = 0"
  "fastestCount tally0 = 0" "sumD tally0 = 0" "bestTime tally0 = 0"
  by (simp_all add: tally0_def)

lemma newConversion_counts:
  "Conversion.Total (newConversion now xs) = int (length xs)"
  "Conversion.Converted (newConversion now xs) = number isConverted xs"
  "Conversion.NotPassed (newConversion now xs) = number isNotPassed xs"
  "Conversion.NeedAttention (newConversion now xs) =
     number (\<lambda>a. isPending a \<and> age now a > threshold) xs"
  "Conversion.Fastest (newConversion now xs) =
     number (\<lambda>a. isConverted a \<and> elapsed a \<le> 30 * Minute) xs"
  by (simp_all add: newConversion_def Let_def loop_converted loop_notPassed
        loop_needAttention loop_fastestCount)

lemma number_partition:
  "number isConverted xs + number isNotPassed xs + number isPending xs + number unclassified xs
     = int (length xs)"
proof (induction xs)
  case Nil
  show ?case by simp
next
  case (Cons a xs)
  from dispositions_cases [of a] dispositions_exclusive [of a] unclassified_iff [of a]
  have "(if isConverted a then 1 else 0) + (if isNotPassed a then 1 else 0)
      + (if isPending a then 1 else 0) + (if unclassified a then 1 else (0::int)) = 1"
    by auto
  with Cons show ?case by simp
qed

subsection \<open>Dispositions and the conversion summary\<close>

text \<open>
  Claim C1, as stated, fails. A record with the status ``Approved'' and no completion
  timestamp is neither converted, nor not-passed, nor pending, so the three counts do
  not add up to the total. And the code tests the status for ``not pass'', not for
  ``not passed'': a completed record with the status ``Not Pass'' is converted in the
  words of the claim, and counted as not-passed by the code.
\<close>

theorem dispositions_not_exhaustive:
  "\<not> statedConverted (sample ''A'' ''Approved'' None 0)
   \<and> \<not> statedNotPassed (sample ''A'' ''Approved'' None 0)
   \<and> \<not> statedPending (sample ''A'' ''Approved'' None 0)
   \<and> Conversion.Converted (newConversion 0 [sample ''A'' ''Approved'' None 0])
       + Conversion.NotPassed (newConversion 0 [sample ''A'' ''Approved'' None 0])
       + number statedPending [sample ''A'' ''Approved'' None 0]
     \<noteq> Conversion.Total (newConversion 0 [sample ''A'' ''Approved'' None 0])
   \<and> statedConverted (sample ''A'' ''Not Pass'' (Some Minute) 0)
   \<and> Conversion.Converted (newConversion 0 [sample ''A'' ''Not Pass'' (Some Minute) 0]) = 0
   \<and> Conversion.NotPassed (newConversion 0 [sample ''A'' ''Not Pass'' (Some Minute) 0]) = 1"
  by code_simp

text \<open>
  Claim C1, amended. The three dispositions that the code tests (with ``not pass'') are
  mutually exclusive; a record in none of them is unclassified: it has an empty status
  and a completion timestamp, or a status without ``not pass'' and no completion
  timestamp. The converted count and the not-passed count of the summary count the
  converted and the not-passed records; with the pending and the unclassified records
  they add up to the total. Needs-attention counts exactly the pending records older
  than five hours.
\<close>

theorem conversion_dispositions:
  "\<not> (isConverted a \<and> isNotPassed a) \<and> \<not> (isConverted a \<and> isPending a)
   \<and> \<not> (isNotPassed a \<and> isPending a)
   \<and> (unclassified a \<longleftrightarrow> \<not> isConverted a \<and> \<not> isNotPassed a \<and> \<not> isPending a)
   \<and> Conversion.Converted (newConversion now appIns) = number isConverted appIns
   \<and> Conversion.NotPassed (newConversion now appIns) = number isNotPassed appIns
   \<and> Conversion.Converted (newConversion now appIns)
       + Conversion.NotPassed (newConversion now appIns)
       + number isPending appIns + number unclassified appIns
     = Conversion.Total (newConversion now appIns)
   \<and> Conversion.NeedAttention (newConversion now appIns)
     = number (\<lambda>a. isPending a \<and> age now a > 5 * Hour) appIns"
  using dispositions_exclusive [of a] unclassified_iff [of a] number_partition [of appIns]
  by (simp add: newConversion_counts threshold_def)

theorem conversion_dispositions_witness:
  "Conversion.Converted (newConversion (6 * Hour)
      [sample ''A'' ''Approved'' (Some Minute) 0, sample ''A'' ''Not Pass'' None 0,
       sample ''B'' '''' None 0, sample ''B'' ''Approved'' None 0]) = 1
   \<and> Conversion.NotPassed (newConversion (6 * Hour)
      [sample ''A'' ''Approved'' (Some Minute) 0, sample ''A'' ''Not Pass'' None 0,
       sample ''B'' '''' None 0, sample ''B'' ''Approved'' None 0]) = 1
   \<and> number isPending
      [sample ''A'' ''Approved'' (Some Minute) 0, sample ''A'' ''Not Pass'' None 0,
       sample ''B'' '''' None 0, sample ''B'' ''Approved'' None 0] = 1
   \<and> number unclassified
      [sample ''A'' ''Approved'' (Some Minute) 0, sample ''A'' ''Not Pass'' None 0,
       sample ''B'' '''' None 0, sample ''B'' ''Approved'' None 0] = 1
   \<and> Conversion.Total (newConversion (6 * Hour)
      [sample ''A'' ''Approved'' (Some Minute) 0, sample ''A'' ''Not Pass'' None 0,
       sample ''B'' '''' None 0, sample ''B'' ''Approved'' None 0]) = 4
   \<and> Conversion.NeedAttention (newConversion (6 * Hour)
      [sample ''A'' ''Approved'' (Some Minute) 0, sample ''A'' ''Not Pass'' None 0,
       sample ''B'' '''' None 0, sample ''B'' ''Approved'' None 0]) = 1"
  using conversion_dispositions [of "sample ''B'' '''' None 0" "6 * Hour"
      "[sample ''A'' ''Approved'' (Some Minute) 0, sample ''A'' ''Not Pass'' None 0,
        sample ''B'' '''' None 0, sample ''B'' ''Approved'' None 0]"]
  by code_simp

subsection \<open>The half-hour boundary\<close>

text \<open>
  Claim C10. A converted record completed exactly 30 minutes after its creation is
  counted as fastest (the test is \<open>\<le>\<close>) and falls into the bucket ``<1h'', not
  ``<30min'' (the test is \<open><\<close>): the fastest count, 1, exceeds the count of the
  first bucket, 0.
\<close>

theorem half_hour_fastest_but_second_bucket:
  "isConverted (sample ''A'' ''Approved'' (Some (30 * Minute)) 0)
   \<and> elapsed (sample ''A'' ''Approved'' (Some (30 * Minute)) 0) = 30 * Minute
   \<and> Conversion.Fastest (newConversion now [sample ''A'' ''Approved'' (Some (30 * Minute)) 0]) = 1
   \<and> createTimeIntervalsByConverted [sample ''A'' ''Approved'' (Some (30 * Minute)) 0]
     = [\<lparr>TimeInterval.Title = ''<30min'', TimeInterval.Total = 0\<rparr>,
         \<lparr>TimeInterval.Title = ''<1h'', TimeInterval.Total = 1\<rparr>,
         \<lparr>TimeInterval.Title = ''<2h'', TimeInterval.Total = 0\<rparr>,
         \<lparr>TimeInterval.Title = ''<3h'', TimeInterval.Total = 0\<rparr>,
         \<lparr>TimeInterval.Title = ''<4h'', TimeInterval.Total = 0\<rparr>,
         \<lparr>TimeInterval.Title = ''<5h'', TimeInterval.Total = 0\<rparr>,
         \<lparr>TimeInterval.Title = ''5h+'', TimeInterval.Total = 0\<rparr>]"
  by code_simp

subsection \<open>Schedules\<close>


lemma permuting_reversed: "permuting reversed"
  by (simp add: permuting_def reversed_def)

lemma permuting_Nil:
  assumes "permuting s"
  shows "topVisit s [] = []" "boardVisit s [] = []" "bestVisit s [] = []"
    "productVisit s [] = []"
proof -
  from assms have "mset (topVisit s []) = {#}" "mset (boardVisit s []) = {#}"
      "mset (bestVisit s []) = {#}" "mset (productVisit s []) = {#}"
    unfolding permuting_def by simp_all
  then show "topVisit s [] = []" "boardVisit s [] = []" "bestVisit s [] = []"
      "productVisit s [] = []"
    by simp_all
qed

subsection \<open>The histograms\<close>

lemma bucket_incr: "bucket d m = incr (bucketTitle d) m"
  by (simp add: bucket_def bucketTitle_def)

lemma bucketTitle_in_titles: "bucketTitle d \<in> set titles"
  by (simp add: bucketTitle_def titles_def)

lemma distinct_titles: "distinct titles"
  by (simp add: titles_def)

lemma count_of_incr: "count_of (incr t m) t' = count_of m t' + (if t = t' then 1 else 0)"
  by (simp add: incr_def count_of_def)

lemma count_of_zeroIntervals: "count_of zeroIntervals t = 0"
  by (simp add: zeroIntervals_def count_of_def titles_def)

lemma histogram_loop:
  "count_of (foldl (\<lambda>m a. if P a then bucket (d a) m else m) m xs) t =
     count_of m t + number (\<lambda>a. P a \<and> bucketTitle (d a) = t) xs"
  by (induction xs arbitrary: m) (simp_all add: bucket_incr count_of_incr)

lemma collect_histogram_loop:
  "collect (foldl (\<lambda>m a. if P a then bucket (d a) m else m) zeroIntervals xs) = histogramOf P d xs"
  by (simp add: collect_def histogramOf_def histogram_loop count_of_zeroIntervals)

lemma converted_guard:
  "(\<lambda>intervals a.
        (let status = ToLower (AppIn.Status a)
         in if length (AppIn.Status a) > 0 \<and> \<not> Contains status ''not pass''
            then (case AppIn.CompletedAt a of
                    Some completedAt \<Rightarrow> bucket (Sub completedAt (AppIn.CreatedAt a)) intervals
                  | None \<Rightarrow> intervals)
            else intervals))
   = (\<lambda>m a. if isConverted a then bucket (elapsed a) m else m)"
  by (intro ext) (simp add: isConverted_def elapsed_def Let_def split: option.splits)

lemma createTimeIntervalsByConverted_eq:
  "createTimeIntervalsByConverted appIns = histogramOf isConverted elapsed appIns"
  unfolding createTimeIntervalsByConverted_def converted_guard
  by (rule collect_histogram_loop)

lemma createTimeIntervalsByPending_eq:
  "createTimeIntervalsByPending now appIns = histogramOf isPending (age now) appIns"
proof -
  have "(\<lambda>intervals a.
        (if AppIn.Status a = '''' \<and> AppIn.CompletedAt a = None
         then bucket (Sub now (AppIn.CreatedAt a)) intervals
         else intervals))
     = (\<lambda>m a. if isPending a then bucket (age now a) m else m)"
    by (intro ext) (simp add: isPending_def age_def)
  then show ?thesis
    unfolding createTimeIntervalsByPending_def by (simp only: collect_histogram_loop)
qed

lemma createCAFinalTimeIntervalsByConverted_eq:
  "createCAFinalTimeIntervalsByConverted cs = histogramOf isCompletedCA elapsedCA cs"
proof -
  have "(\<lambda>intervals a.
        (let status = ToLower (CAFinal.Status a)
         in if status = ''completed''
            then (case CAFinal.CompletedAt a of
                    Some completedAt \<Rightarrow> bucket (Sub completedAt (CAFinal.CreatedAt a)) intervals
                  | None \<Rightarrow> intervals)
            else intervals))
     = (\<lambda>m a. if isCompletedCA a then bucket (elapsedCA a) m else m)"
    by (intro ext) (simp add: isCompletedCA_def elapsedCA_def Let_def split: option.splits)
  then show ?thesis
    unfolding createCAFinalTimeIntervalsByConverted_def by (simp only: collect_histogram_loop)
qed

lemma createCAFinalTimeIntervalsByPending_eq:
  "createCAFinalTimeIntervalsByPending now cs = histogramOf isPendingCA (ageCA now) cs"
proof -
  have "(\<lambda>intervals a.
        (if ToLower (CAFinal.Status a) \<noteq> ''completed'' \<and> CAFinal.CompletedAt a = None
         then bucket (Sub now (CAFinal.CreatedAt a)) intervals
         else intervals))
     = (\<lambda>m a. if isPendingCA a then bucket (ageCA now a) m else m)"
    by (intro ext) (simp add: isPendingCA_def ageCA_def)
  then show ?thesis
    unfolding createCAFinalTimeIntervalsByPending_def by (simp only: collect_histogram_loop)
qed

lemma histogramOf_titles:
  "map TimeInterval.Title (histogramOf P d xs) = titles"
  by (simp add: histogramOf_def comp_def)

lemma histogramOf_nonneg:
  "list_all (\<lambda>h. 0 \<le> TimeInterval.Total h) (histogramOf P d xs)"
  by (simp add: histogramOf_def list_all_iff)

lemma one_bucket:
  "(\<Sum>t\<leftarrow>titles. if P a \<and> bucketTitle (d a) = t then 1 else (0::int)) = (if P a then 1 else 0)"
  by (simp add: titles_def bucketTitle_def)

lemma histogramOf_sum:
  "sum_list (map TimeInterval.Total (histogramOf P d xs)) = number P xs"
proof -
  have "(\<Sum>t\<leftarrow>titles. number (\<lambda>a. P a \<and> bucketTitle (d a) = t) xs) = number P xs"
  proof (induction xs)
    case Nil
    show ?case by simp
  next
    case (Cons a xs)
    have "(\<Sum>t\<leftarrow>titles. number (\<lambda>a. P a \<and> bucketTitle (d a) = t) (a # xs))
        = (\<Sum>t\<leftarrow>titles. if P a \<and> bucketTitle (d a) = t then 1 else 0)
          + (\<Sum>t\<leftarrow>titles. number (\<lambda>a. P a \<and> bucketTitle (d a) = t) xs)"
      by (simp add: sum_list_addf)
    with Cons one_bucket [of P a d] show ?case by simp
  qed
  then show ?thesis by (simp add: histogramOf_def comp_def)
qed

lemma bucketTitle_bounds:
  "(bucketTitle d = ''<30min'' \<longleftrightarrow> d < 30 * Minute)"
  "(bucketTitle d = ''<1h'' \<longleftrightarrow> 30 * Minute \<le> d \<and> d < Hour)"
  "(bucketTitle d = ''<2h'' \<longleftrightarrow> Hour \<le> d \<and> d < 2 * Hour)"
  "(bucketTitle d = ''<3h'' \<longleftrightarrow> 2 * Hour \<le> d \<and> d < 3 * Hour)"
  "(bucketTitle d = ''<4h'' \<longleftrightarrow> 3 * Hour \<le> d \<and> d < 4 * Hour)"
  "(bucketTitle d = ''<5h'' \<longleftrightarrow> 4 * Hour \<le> d \<and> d < 5 * Hour)"
  "(bucketTitle d = ''5h+'' \<longleftrightarrow> 5 * Hour \<le> d)"
  by (auto simp: bucketTitle_def Hour_def Minute_def)

text \<open>
  Claim C6. Each of the four histogram functions returns the histogram of its
  classification predicate and duration: the seven titles in their fixed order, every
  count non-negative, the counts adding up to the number of records that satisfy the
  predicate. The bucket of a duration is the first title whose threshold the duration
  is strictly below, and ``5h+'' from five hours on.
\<close>

theorem histograms_fixed_buckets:
  "createTimeIntervalsByConverted appIns = histogramOf isConverted elapsed appIns
   \<and> createTimeIntervalsByPending now appIns = histogramOf isPending (age now) appIns
   \<and> createCAFinalTimeIntervalsByConverted cs = histogramOf isCompletedCA elapsedCA cs
   \<and> createCAFinalTimeIntervalsByPending now cs = histogramOf isPendingCA (ageCA now) cs
   \<and> map TimeInterval.Title (createTimeIntervalsByConverted appIns) = [''<30min'', ''<1h'', ''<2h'', ''<3h'', ''<4h'', ''<5h'', ''5h+'']
   \<and> list_all (\<lambda>h. 0 \<le> TimeInterval.Total h) (createTimeIntervalsByConverted appIns)
   \<and> sum_list (map TimeInterval.Total (createTimeIntervalsByConverted appIns)) = number isConverted appIns
   \<and> map TimeInterval.Title (createTimeIntervalsByPending now appIns) = [''<30min'', ''<1h'', ''<2h'', ''<3h'', ''<4h'', ''<5h'', ''5h+'']
   \<and> list_all (\<lambda>h. 0 \<le> TimeInterval.Total h) (createTimeIntervalsByPending now appIns)
   \<and> sum_list (map TimeInterval.Total (createTimeIntervalsByPending now appIns)) = number isPending appIns
   \<and> map TimeInterval.Title (createCAFinalTimeIntervalsByConverted cs) = [''<30min'', ''<1h'', ''<2h'', ''<3h'', ''<4h'', ''<5h'', ''5h+'']
   \<and> list_all (\<lambda>h. 0 \<le> TimeInterval.Total h) (createCAFinalTimeIntervalsByConverted cs)
   \<and> sum_list (map TimeInterval.Total (createCAFinalTimeIntervalsByConverted cs)) = number isCompletedCA cs
   \<and> map TimeInterval.Title (createCAFinalTimeIntervalsByPending now cs) = [''<30min'', ''<1h'', ''<2h'', ''<3h'', ''<4h'', ''<5h'', ''5h+'']
   \<and> list_all (\<lambda>h. 0 \<le> TimeInterval.Total h) (createCAFinalTimeIntervalsByPending now cs)
   \<and> sum_list (map TimeInterval.Total (createCAFinalTimeIntervalsByPending now cs)) = number isPendingCA cs
   \<and> (bucketTitle d = ''<30min'' \<longleftrightarrow> d < 30 * Minute)
   \<and> (bucketTitle d = ''<1h'' \<longleftrightarrow> 30 * Minute \<le> d \<and> d < Hour)
   \<and> (bucketTitle d = ''<2h'' \<longleftrightarrow> Hour \<le> d \<and> d < 2 * Hour)
   \<and> (bucketTitle d = ''<3h'' \<longleftrightarrow> 2 * Hour \<le> d \<and> d < 3 * Hour)
   \<and> (bucketTitle d = ''<4h'' \<longleftrightarrow> 3 * Hour \<le> d \<and> d < 4 * Hour)
   \<and> (bucketTitle d = ''<5h'' \<longleftrightarrow> 4 * Hour \<le> d \<and> d < 5 * Hour)
   \<and> (bucketTitle d = ''5h+'' \<longleftrightarrow> 5 * Hour \<le> d)"
  by (simp only: createTimeIntervalsByConverted_eq createTimeIntervalsByPending_eq
        createCAFinalTimeIntervalsByConverted_eq createCAFinalTimeIntervalsByPending_eq
        histogramOf_titles histogramOf_nonneg histogramOf_sum bucketTitle_bounds
        titles_def simp_thms)

subsection \<open>Grouping by performer and by product\<close>

lemma append_group_keys:
  "map fst (append_group k a m) = (if k \<in> set (map fst m) then map fst m else map fst m @ [k])"
  by (induction m) force+

lemma distinct_append_group:
  "distinct (map fst m) \<Longrightarrow> distinct (map fst (append_group k a m))"
  by (simp add: append_group_keys)

lemma map_of_append_group:
  "map_of (append_group k a m) k' =
     (if k' = k then Some ((case map_of m k of None \<Rightarrow> [] | Some vs \<Rightarrow> vs) @ [a])
      else map_of m k')"
  by (induction m) auto

lemma group_loop_distinct:
  "distinct (map fst g) \<Longrightarrow>
   distinct (map fst (foldl (\<lambda>g a. if keep a then append_group (key a) a g else g) g xs))"
  by (induction xs arbitrary: g) (simp_all add: distinct_append_group)

lemma group_loop_map_of:
  "map_of (foldl (\<lambda>g a. if keep a then append_group (key a) a g else g) g xs) k =
     (case map_of g k of
        None \<Rightarrow> grouped keep key xs k
      | Some vs \<Rightarrow> Some (vs @ filter (\<lambda>a. keep a \<and> key a = k) xs))"
proof (induction xs arbitrary: g)
  case Nil
  show ?case by (simp add: grouped_def split: option.splits)
next
  case (Cons a xs)
  show ?case
    by (simp add: Cons.IH map_of_append_group grouped_def split: option.splits list.splits)
qed

lemma group_loop_empty:
  "map_of (foldl (\<lambda>g a. if keep a then append_group (key a) a g else g) [] xs) k =
     grouped keep key xs k"
  by (simp add: group_loop_map_of)

lemma group_loop_filter:
  "foldl (\<lambda>g a. if keep a then append_group (key a) a g else g) g (filter keep xs)
   = foldl (\<lambda>g a. if keep a then append_group (key a) a g else g) g xs"
  by (induction xs arbitrary: g) simp_all

lemma groupAppInByExecutor_loop:
  "groupAppInByExecutor appIns =
     foldl (\<lambda>g a. if AppIn.Executor a \<noteq> '''' then append_group (AppIn.Executor a) a g else g)
       [] appIns"
proof -
  have eq: "(\<lambda>groups a. if AppIn.Executor a = '''' then groups
                     else append_group (AppIn.Executor a) a groups)
      = (\<lambda>g a. if AppIn.Executor a \<noteq> '''' then append_group (AppIn.Executor a) a g else g)"
    by (intro ext) simp
  show ?thesis unfolding groupAppInByExecutor_def eq by (rule refl)
qed

lemma productKey_chain:
  "productKey a =
     (if ToLower (AppIn.Product a) = ''sale auto''
      then (if Contains (ToLower (AppIn.Type a)) ''c4c'' then ''C4C | '' @ AppIn.Product a
            else if Contains (ToLower (AppIn.Type a)) ''used car''
            then ''Used Car | '' @ AppIn.Product a
            else if Contains (ToLower (AppIn.Type a)) ''mc'' then ''MC | '' @ AppIn.Product a
            else AppIn.Product a)
      else AppIn.Product a)"
  by (simp add: productKey_def aliases_def)

lemma groupAppInByProduct_loop:
  "groupAppInByProduct appIns =
     foldl (\<lambda>g a. if AppIn.Type a \<noteq> '''' then append_group (productKey a) a g else g) [] appIns"
proof -
  have "groupAppInByProduct_step
      = (\<lambda>g a. if AppIn.Type a \<noteq> '''' then append_group (productKey a) a g else g)"
    by (intro ext) (simp add: groupAppInByProduct_step_def productKey_chain)
  then show ?thesis by (simp only: groupAppInByProduct_def)
qed

lemma c9:
  "distinct (map fst (groupAppInByProduct appIns))
   \<and> map_of (groupAppInByProduct appIns) k
       = grouped (\<lambda>a. AppIn.Type a \<noteq> '''') productKey appIns k"
  by (simp add: groupAppInByProduct_loop group_loop_distinct group_loop_empty)

lemma groupAppInByExecutor_map_of:
  "distinct (map fst (groupAppInByExecutor appIns))"
  "map_of (groupAppInByExecutor appIns) k
       = grouped (\<lambda>a. AppIn.Executor a \<noteq> '''') AppIn.Executor appIns k"
  by (simp_all add: groupAppInByExecutor_loop group_loop_distinct group_loop_empty)

lemma groupAppInByExecutor_filter:
  "groupAppInByExecutor (filter (\<lambda>a. AppIn.Executor a \<noteq> '''') appIns)
     = groupAppInByExecutor appIns"
  by (simp only: groupAppInByExecutor_loop group_loop_filter)

lemma grouped_Some:
  assumes "grouped keep key xs k = Some g"
  shows "g \<noteq> [] \<and> (\<forall>a\<in>set g. a \<in> set xs \<and> keep a \<and> key a = k)"
proof -
  from assms have "g = filter (\<lambda>a. keep a \<and> key a = k) xs \<and> g \<noteq> []"
    by (auto simp: grouped_def split: list.splits)
  then show ?thesis by auto
qed

lemma groupAppInByExecutor_members:
  assumes "(k, g) \<in> set (groupAppInByExecutor appIns)"
  shows "k \<noteq> '''' \<and> g \<noteq> [] \<and> (\<forall>a\<in>set g. a \<in> set appIns \<and> AppIn.Executor a = k)"
proof -
  from assms groupAppInByExecutor_map_of(1) [of appIns]
  have "map_of (groupAppInByExecutor appIns) k = Some g" by simp
  then have "grouped (\<lambda>a. AppIn.Executor a \<noteq> '''') AppIn.Executor appIns k = Some g"
    by (simp add: groupAppInByExecutor_map_of(2))
  from grouped_Some [OF this] show ?thesis
    by (cases g) auto
qed

lemma groupAppInByExecutor_keys:
  "set (map fst (groupAppInByExecutor appIns)) = AppIn.Executor ` set appIns - {''''}"
proof -
  have "set (map fst (groupAppInByExecutor appIns)) = dom (map_of (groupAppInByExecutor appIns))"
    by (simp add: dom_map_of_conv_image_fst)
  also have "\<dots> = {k. grouped (\<lambda>a. AppIn.Executor a \<noteq> '''') AppIn.Executor appIns k \<noteq> None}"
    by (simp add: dom_def groupAppInByExecutor_map_of(2))
  also have "\<dots> = AppIn.Executor ` set appIns - {''''}"
    by (auto simp: grouped_def filter_empty_conv split: list.splits)
  finally show ?thesis .
qed

lemma length_groupAppInByExecutor:
  "length (groupAppInByExecutor appIns) = card (AppIn.Executor ` set appIns - {''''})"
proof -
  have "length (groupAppInByExecutor appIns) = length (map fst (groupAppInByExecutor appIns))"
    by simp
  also have "\<dots> = card (set (map fst (groupAppInByExecutor appIns)))"
    by (rule distinct_card [symmetric]) (rule groupAppInByExecutor_map_of(1))
  finally show ?thesis by (simp only: groupAppInByExecutor_keys)
qed

text \<open>
  Claim C8. Grouping by performer ignores the records whose performer field is empty:
  the groups of a list are the groups of its assigned records, no group has the empty
  key and every record of a group has the key of the group as its performer. So the
  active-performer count is the number of distinct non-empty performers, and the
  active-performer count, the top performer, the leaderboard and the best-time performer
  of the Overview are those of the assigned records alone, under every schedule. The
  total of the conversion summary still counts every record.
\<close>

theorem unassigned_records_excluded:
  "groupAppInByExecutor appIns
     = groupAppInByExecutor (filter (\<lambda>a. AppIn.Executor a \<noteq> '''') appIns)
   \<and> (\<forall>(k, g) \<in> set (groupAppInByExecutor appIns).
         k \<noteq> '''' \<and> (\<forall>a\<in>set g. AppIn.Executor a = k))
   \<and> Overview.ActiveExecutor (newOverview s now appIns)
       = int (card (AppIn.Executor ` set appIns - {''''}))
   \<and> Overview.ActiveExecutor (newOverview s now appIns)
       = Overview.ActiveExecutor
           (newOverview s now (filter (\<lambda>a. AppIn.Executor a \<noteq> '''') appIns))
   \<and> Overview.TopPerformer (newOverview s now appIns)
       = Overview.TopPerformer
           (newOverview s now (filter (\<lambda>a. AppIn.Executor a \<noteq> '''') appIns))
   \<and> Overview.Leaderboards (newOverview s now appIns)
       = Overview.Leaderboards
           (newOverview s now (filter (\<lambda>a. AppIn.Executor a \<noteq> '''') appIns))
   \<and> Overview.BestTimeUsed (newOverview s now appIns)
       = Overview.BestTimeUsed
           (newOverview s now (filter (\<lambda>a. AppIn.Executor a \<noteq> '''') appIns))
   \<and> Conversion.Total (Overview.Conversion (newOverview s now appIns)) = int (length appIns)"
proof -
  have members: "\<forall>(k, g) \<in> set (groupAppInByExecutor appIns).
         k \<noteq> '''' \<and> (\<forall>a\<in>set g. AppIn.Executor a = k)"
    using groupAppInByExecutor_members [of _ _ appIns] by blast
  have active: "Overview.ActiveExecutor (newOverview s now appIns)
       = int (card (AppIn.Executor ` set appIns - {''''}))"
    by (simp add: newOverview_def Let_def length_groupAppInByExecutor)
  have total: "Conversion.Total (Overview.Conversion (newOverview s now appIns))
       = int (length appIns)"
    by (simp add: newOverview_def Let_def newConversion_counts)
  show ?thesis
    using members active total
    by (simp add: newOverview_def Let_def groupAppInByExecutor_filter)
qed

theorem unassigned_records_excluded_witness:
  "groupAppInByExecutor
      [sample ''A'' ''Approved'' (Some Minute) 0, sample '''' ''Approved'' (Some Minute) 0]
     = [(''A'', [sample ''A'' ''Approved'' (Some Minute) 0])]
   \<and> Overview.ActiveExecutor (newOverview inOrder 0
        [sample ''A'' ''Approved'' (Some Minute) 0, sample '''' ''Approved'' (Some Minute) 0]) = 1
   \<and> Conversion.Total (Overview.Conversion (newOverview inOrder 0
        [sample ''A'' ''Approved'' (Some Minute) 0, sample '''' ''Approved'' (Some Minute) 0])) = 2"
proof -
  note t = unassigned_records_excluded [of
      "[sample ''A'' ''Approved'' (Some Minute) 0, sample '''' ''Approved'' (Some Minute) 0]"
      inOrder 0]
  have groups: "groupAppInByExecutor
      [sample ''A'' ''Approved'' (Some Minute) 0, sample '''' ''Approved'' (Some Minute) 0]
     = [(''A'', [sample ''A'' ''Approved'' (Some Minute) 0])]"
    by code_simp
  have "int (card (AppIn.Executor `
          set [sample ''A'' ''Approved'' (Some Minute) 0, sample '''' ''Approved'' (Some Minute) 0]
        - {''''})) = 1"
    by (simp add: sample_def)
  with t [THEN conjunct2, THEN conjunct2, THEN conjunct1]
  have active: "Overview.ActiveExecutor (newOverview inOrder 0
        [sample ''A'' ''Approved'' (Some Minute) 0, sample '''' ''Approved'' (Some Minute) 0]) = 1"
    by (simp only:)
  from t have total: "Conversion.Total (Overview.Conversion (newOverview inOrder 0
        [sample ''A'' ''Approved'' (Some Minute) 0, sample '''' ''Approved'' (Some Minute) 0])) = 2"
    by (simp only: list.size)
  from groups active total show ?thesis by (simp only: simp_thms)
qed


subsection \<open>sort.Slice and the leaderboard\<close>

lemma mset_insertLeft: "mset (insertLeft lt x ys) = add_mset x (mset ys)"
  by (induction ys) simp_all

lemma set_insertLeft: "set (insertLeft lt x ys) = insert x (set ys)"
  by (induction ys) auto

lemma sorted_insertLeft:
  assumes asym: "\<And>a b. lt a b \<Longrightarrow> \<not> lt b a"
    and negtrans: "\<And>a b c. \<not> lt a b \<Longrightarrow> \<not> lt b c \<Longrightarrow> \<not> lt a c"
  shows "sorted_wrt (\<lambda>a b. \<not> lt a b) ys \<Longrightarrow> sorted_wrt (\<lambda>a b. \<not> lt a b) (insertLeft lt x ys)"
proof (induction ys)
  case Nil
  show ?case by simp
next
  case (Cons y ys)
  show ?case
  proof (cases "lt x y")
    case True
    with Cons asym [of x y] show ?thesis
      by (auto simp: set_insertLeft)
  next
    case False
    with Cons negtrans [of x y] show ?thesis
      by auto
  qed
qed

lemma mset_insert_loop:
  "mset (foldl (\<lambda>acc x. insertLeft lt x acc) acc xs) = mset acc + mset xs"
  by (induction xs arbitrary: acc) (simp_all add: mset_insertLeft)

lemma sorted_insert_loop:
  assumes asym: "\<And>a b. lt a b \<Longrightarrow> \<not> lt b a"
    and negtrans: "\<And>a b c. \<not> lt a b \<Longrightarrow> \<not> lt b c \<Longrightarrow> \<not> lt a c"
  shows "sorted_wrt (\<lambda>a b. \<not> lt a b) acc \<Longrightarrow>
    sorted_wrt (\<lambda>a b. \<not> lt a b) (foldl (\<lambda>acc x. insertLeft lt x acc) acc xs)"
proof (induction xs arbitrary: acc)
  case Nil
  then show ?case by simp
next
  case (Cons x xs)
  have "sorted_wrt (\<lambda>a b. \<not> lt a b) (insertLeft lt x acc)"
  proof (rule sorted_insertLeft)
    show "\<And>a b. lt a b \<Longrightarrow> \<not> lt b a" by (rule asym)
    show "\<And>a b c. \<not> lt a b \<Longrightarrow> \<not> lt b c \<Longrightarrow> \<not> lt a c" by (rule negtrans)
    show "sorted_wrt (\<lambda>a b. \<not> lt a b) acc" by (rule Cons.prems)
  qed
  then show ?case by (simp add: Cons.IH)
qed

lemma mset_sort_Slice: "mset (sort_Slice lt xs) = mset xs"
  by (simp add: sort_Slice_def mset_insert_loop)

lemma length_sort_Slice: "length (sort_Slice lt xs) = length xs"
  using mset_sort_Slice [of lt xs] by (metis size_mset)

lemma sorted_sort_Slice:
  assumes asym: "\<And>a b. lt a b \<Longrightarrow> \<not> lt b a"
    and negtrans: "\<And>a b c. \<not> lt a b \<Longrightarrow> \<not> lt b c \<Longrightarrow> \<not> lt a c"
  shows "sorted_wrt (\<lambda>a b. \<not> lt b a) (sort_Slice lt xs)"
proof -
  have "sorted_wrt (\<lambda>a b. \<not> lt a b) (foldl (\<lambda>acc x. insertLeft lt x acc) [] xs)"
  proof (rule sorted_insert_loop)
    show "\<And>a b. lt a b \<Longrightarrow> \<not> lt b a" by (rule asym)
    show "\<And>a b c. \<not> lt a b \<Longrightarrow> \<not> lt b c \<Longrightarrow> \<not> lt a c" by (rule negtrans)
    show "sorted_wrt (\<lambda>a b. \<not> lt a b) []" by simp
  qed
  then show ?thesis
    by (simp add: sort_Slice_def sorted_wrt_rev)
qed

lemma performerLess_asym: "performerLess p q \<Longrightarrow> \<not> performerLess q p"
  by (auto simp: performerLess_def split: if_splits)

lemma performerLess_negtrans:
  "\<not> performerLess p q \<Longrightarrow> \<not> performerLess q r \<Longrightarrow> \<not> performerLess p r"
  by (auto simp: performerLess_def split: if_splits)

lemma sorted_performers:
  "sorted_wrt (\<lambda>p q. \<not> performerLess q p) (sort_Slice performerLess ps)"
  by (rule sorted_sort_Slice) (erule performerLess_asym, erule (1) performerLess_negtrans)

lemma rankedBefore_newLeaderboard:
  "rankedBefore (newLeaderboard i p) (newLeaderboard j q) \<longleftrightarrow> \<not> performerLess q p"
  by (auto simp: rankedBefore_def newLeaderboard_def performerLess_def)

lemma upt_from_Suc: "[i ..< Suc (i + n)] = i # [Suc i ..< Suc i + n]"
  by (simp add: upt_conv_Cons del: upt_Suc)

lemma leaderboardLoop_eq:
  "length lbs < 5 \<Longrightarrow>
   leaderboardLoop i ps lbs =
     lbs @ map2 newLeaderboard [i ..< i + length ps] (take (5 - length lbs) ps)"
proof (induction ps arbitrary: i lbs)
  case Nil
  show ?case by simp
next
  case (Cons p ps)
  show ?case
  proof (cases "length lbs = 4")
    case True
    then show ?thesis by (simp add: upt_from_Suc del: upt_Suc)
  next
    case False
    with Cons.prems have short: "length (lbs @ [newLeaderboard i p]) < 5" by simp
    from Cons.prems obtain k where k: "5 - length lbs = Suc k"
      by (cases "5 - length lbs") simp_all
    then have k': "5 - length (lbs @ [newLeaderboard i p]) = k" by simp
    from False Cons.prems have "leaderboardLoop i (p # ps) lbs
        = leaderboardLoop (i + 1) ps (lbs @ [newLeaderboard i p])"
      by simp
    also have "\<dots> = (lbs @ [newLeaderboard i p])
        @ map2 newLeaderboard [i + 1 ..< i + 1 + length ps] (take k ps)"
      unfolding Cons.IH [OF short] k' ..
    also have "\<dots> = lbs @ map2 newLeaderboard [i ..< i + length (p # ps)]
        (take (5 - length lbs) (p # ps))"
      by (simp add: k upt_from_Suc del: upt_Suc)
    finally show ?thesis .
  qed
qed

text \<open>
  The loop that builds the leaderboard, run on any list of performers that is in the
  order of the \<^verbatim>\<open>less\<close> function: this covers every result that \<^verbatim>\<open>sort.Slice\<close> may
  return, also for slices longer than 12 elements.
\<close>

lemma leaderboardLoop_top5:
  "leaderboardLoop 0 ps [] = map2 newLeaderboard [0 ..< length ps] (take 5 ps)"
  by (simp add: leaderboardLoop_eq)

lemma length_leaderboardLoop: "length (leaderboardLoop 0 ps []) = min 5 (length ps)"
  by (simp add: leaderboardLoop_top5)

lemma nth_leaderboardLoop:
  "i < min 5 (length ps) \<Longrightarrow> leaderboardLoop 0 ps [] ! i = newLeaderboard i (ps ! i)"
  by (simp add: leaderboardLoop_top5)

lemma ranks_upto: "map (\<lambda>i. int (i + 1)) [0 ..< n] = [1 .. int n]"
  by (induction n) (simp_all add: upto_rec2)

lemma rank_leaderboardLoop:
  "map Leaderboard.Rank (leaderboardLoop 0 ps []) = [1 .. int (min 5 (length ps))]"
proof -
  have "map Leaderboard.Rank (leaderboardLoop 0 ps [])
      = map (\<lambda>i. int (i + 1)) [0 ..< min 5 (length ps)]"
    by (rule nth_equalityI)
       (simp_all add: length_leaderboardLoop nth_leaderboardLoop newLeaderboard_def)
  then show ?thesis by (simp only: ranks_upto)
qed

lemma sorted_leaderboardLoop:
  assumes "sorted_wrt (\<lambda>p q. \<not> performerLess q p) ps"
  shows "sorted_wrt rankedBefore (leaderboardLoop 0 ps [])"
proof -
  have "rankedBefore (leaderboardLoop 0 ps [] ! i) (leaderboardLoop 0 ps [] ! j)"
    if "i < j" "j < length (leaderboardLoop 0 ps [])" for i j
  proof -
    from that have j: "j < min 5 (length ps)" by (simp add: length_leaderboardLoop)
    with that assms have "\<not> performerLess (ps ! j) (ps ! i)"
      by (simp add: sorted_wrt_iff_nth_less)
    with that j show ?thesis
      by (simp add: nth_leaderboardLoop rankedBefore_newLeaderboard)
  qed
  then show ?thesis by (simp add: sorted_wrt_iff_nth_less)
qed

lemma createLeaderboards_eq:
  "createLeaderboards conversions =
     map2 newLeaderboard [0 ..< length conversions]
       (take 5 (sort_Slice performerLess (map snd conversions)))"
  by (simp add: createLeaderboards_def Let_def leaderboardLoop_top5 length_sort_Slice)

lemma length_createLeaderboards:
  "length (createLeaderboards conversions) = min 5 (length conversions)"
  by (simp add: createLeaderboards_def Let_def length_leaderboardLoop length_sort_Slice)

lemma rank_createLeaderboards:
  "map Leaderboard.Rank (createLeaderboards conversions)
     = [1 .. int (length (createLeaderboards conversions))]"
  unfolding length_createLeaderboards
  by (simp add: createLeaderboards_def Let_def rank_leaderboardLoop length_sort_Slice)

lemma sorted_createLeaderboards:
  "sorted_wrt rankedBefore (createLeaderboards conversions)"
  unfolding createLeaderboards_def Let_def
  by (rule sorted_leaderboardLoop) (rule sorted_performers)

lemma createLeaderboards_Nil: "createLeaderboards [] = []"
  by (simp add: createLeaderboards_def sort_Slice_def)

text \<open>
  Claim C4. The leaderboard is in the order of the comparator (converted count
  descending, then conversion rate descending, then average time ascending), it has
  \<open>min 5 n\<close> entries for a map of \<open>n\<close> performers, and its ranks are \<open>1, \<dots>, length\<close>
  in this order; the empty map gives the empty list. Its entries are the first five of
  the performers sorted by the \<^verbatim>\<open>less\<close> function, a permutation of the performers of
  the map.
\<close>

theorem leaderboard_sorted_top5_ranked:
  "sorted_wrt rankedBefore (createLeaderboards conversions)
   \<and> length (createLeaderboards conversions) = min 5 (length conversions)
   \<and> map Leaderboard.Rank (createLeaderboards conversions)
       = [1 .. int (length (createLeaderboards conversions))]
   \<and> createLeaderboards [] = []
   \<and> createLeaderboards conversions
       = map2 newLeaderboard [0 ..< length conversions]
           (take 5 (sort_Slice performerLess (map snd conversions)))
   \<and> mset (sort_Slice performerLess (map snd conversions)) = mset (map snd conversions)
   \<and> sorted_wrt (\<lambda>p q. \<not> performerLess q p) (sort_Slice performerLess (map snd conversions))"
  by (intro conjI sorted_createLeaderboards length_createLeaderboards rank_createLeaderboards
        createLeaderboards_Nil createLeaderboards_eq mset_sort_Slice sorted_performers)

subsection \<open>Rounding to float32\<close>

lemma roundEven_bounds: "\<lfloor>q\<rfloor> \<le> roundEven q" "roundEven q \<le> \<lfloor>q\<rfloor> + 1"
  by (simp_all add: roundEven_def Let_def)

lemma roundEven_of_int [simp]: "roundEven (of_int n) = n"
  by (simp add: roundEven_def Let_def)

lemma roundEven_mono:
  assumes "q \<le> r"
  shows "roundEven q \<le> roundEven r"
proof (cases "\<lfloor>q\<rfloor> = \<lfloor>r\<rfloor>")
  case True
  with assms have "q - of_int \<lfloor>r\<rfloor> \<le> r - of_int \<lfloor>r\<rfloor>" by simp
  with True show ?thesis
    by (auto simp: roundEven_def Let_def)
next
  case False
  with assms have "\<lfloor>q\<rfloor> + 1 \<le> \<lfloor>r\<rfloor>"
    using floor_mono [of q r] by linarith
  with roundEven_bounds(2) [of q] roundEven_bounds(1) [of r] show ?thesis
    by linarith
qed

lemma bitlen_powi:
  assumes "0 < (n::int)"
  shows "(2::rat) powi (bitlen n - 1) \<le> of_int n" "of_int n < (2::rat) powi (bitlen n)"
proof -
  from assms have b: "1 \<le> bitlen n" by (auto simp: bitlen_alt_def)
  from bitlen_bounds [OF assms] have "2 ^ nat (bitlen n - 1) \<le> n" "n < 2 ^ nat (bitlen n)"
    by simp_all
  then have "(of_int (2 ^ nat (bitlen n - 1)) :: rat) \<le> of_int n"
    "(of_int n :: rat) < of_int (2 ^ nat (bitlen n))"
    by (simp_all only: of_int_le_iff of_int_less_iff)
  with b show "(2::rat) powi (bitlen n - 1) \<le> of_int n" "of_int n < (2::rat) powi (bitlen n)"
    by (simp_all add: power_int_nonneg_exp)
qed

lemma exponent2_bounds:
  assumes "0 < x"
  shows "2 powi (exponent2 x) \<le> x" "x < 2 powi (exponent2 x + 1)"
proof -
  obtain n d where q: "quotient_of x = (n, d)" by (cases "quotient_of x")
  then have d: "0 < d" by (rule quotient_of_denom_pos)
  from q have x: "x = of_int n / of_int d" by (rule quotient_of_div)
  with assms d have n: "0 < n" by (simp add: zero_less_divide_iff)
  let ?e = "bitlen n - bitlen d"
  have lo: "2 powi (?e - 1) \<le> x"
  proof -
    have "(2::rat) powi (?e - 1) = 2 powi (bitlen n - 1) / 2 powi (bitlen d)"
      by (simp add: power_int_diff)
    also have "\<dots> \<le> of_int n / 2 powi (bitlen d)"
      using bitlen_powi(1) [OF n] by (simp add: divide_right_mono)
    also have "\<dots> \<le> of_int n / of_int d"
      using bitlen_powi(2) [OF d] n d by (simp add: divide_left_mono)
    finally show ?thesis by (simp only: x)
  qed
  have hi: "x < 2 powi (?e + 1)"
  proof -
    have "x < 2 powi (bitlen n) / of_int d"
      unfolding x using bitlen_powi(2) [OF n] d by (simp add: divide_strict_right_mono)
    also have "\<dots> \<le> 2 powi (bitlen n) / 2 powi (bitlen d - 1)"
      using bitlen_powi(1) [OF d] d by (simp add: divide_left_mono)
    also have "\<dots> = 2 powi (?e + 1)"
      by (simp add: power_int_diff power_int_add)
    finally show ?thesis .
  qed
  from lo hi show "2 powi (exponent2 x) \<le> x" "x < 2 powi (exponent2 x + 1)"
    by (simp_all add: exponent2_def q Let_def)
qed

lemma exponent2_mono:
  assumes "0 < x" "x \<le> y"
  shows "exponent2 x \<le> exponent2 y"
proof (rule ccontr)
  assume "\<not> exponent2 x \<le> exponent2 y"
  then have "exponent2 y + 1 \<le> exponent2 x" by simp
  then have "(2::rat) powi (exponent2 y + 1) \<le> 2 powi (exponent2 x)"
    by (intro power_int_increasing) simp_all
  with exponent2_bounds(1) [OF assms(1)] exponent2_bounds(2) [of y] assms
  show False by simp
qed

lemma f32_pos_eq:
  "0 < x \<Longrightarrow> f32 x = of_int (roundEven (x / 2 powi (exponent2 x - 23))) * 2 powi (exponent2 x - 23)"
  by (simp add: f32_def Let_def)

lemma f32_pos_bounds:
  assumes "0 < x"
  shows "2 powi (exponent2 x) \<le> f32 x" "f32 x \<le> 2 powi (exponent2 x + 1)"
proof -
  let ?u = "(2::rat) powi (exponent2 x - 23)"
  have u: "0 < ?u" by simp
  have e: "(2::rat) powi (exponent2 x) = of_int (2 ^ 23) * ?u"
    "(2::rat) powi (exponent2 x + 1) = of_int (2 ^ 24) * ?u"
    by (simp_all add: power_int_diff power_int_add)
  from exponent2_bounds [OF assms] u have "of_int (2 ^ 23) \<le> x / ?u" "x / ?u \<le> of_int (2 ^ 24)"
    unfolding e by (simp_all add: pos_le_divide_eq pos_divide_le_eq)
  then have "roundEven (of_int (2 ^ 23)) \<le> roundEven (x / ?u)"
    "roundEven (x / ?u) \<le> roundEven (of_int (2 ^ 24))"
    by (blast intro: roundEven_mono)+
  then have "(of_int (2 ^ 23) :: rat) \<le> of_int (roundEven (x / ?u))"
    "(of_int (roundEven (x / ?u)) :: rat) \<le> of_int (2 ^ 24)"
    unfolding roundEven_of_int by (simp_all only: of_int_le_iff)
  with u show "2 powi (exponent2 x) \<le> f32 x" "f32 x \<le> 2 powi (exponent2 x + 1)"
    unfolding e f32_pos_eq [OF assms] by (simp_all only: mult_le_cancel_right_pos)
qed

lemma f32_pos: "0 < x \<Longrightarrow> 0 < f32 x"
  using f32_pos_bounds(1) [of x] zero_less_power_int [of "2::rat" "exponent2 x"]
  by linarith

lemma f32_zero [simp]: "f32 0 = 0"
  by (simp add: f32_def)

lemma f32_nonneg: "0 \<le> x \<Longrightarrow> 0 \<le> f32 x"
  using f32_pos [of x] by (cases "x = 0") simp_all

lemma f32_mono_pos:
  assumes "0 < x" "x \<le> y"
  shows "f32 x \<le> f32 y"
proof -
  from assms have y: "0 < y" by simp
  from exponent2_mono [OF assms] consider "exponent2 x = exponent2 y" | "exponent2 x + 1 \<le> exponent2 y"
    by linarith
  then show ?thesis
  proof cases
    case 1
    let ?u = "(2::rat) powi (exponent2 y - 23)"
    have u: "0 < ?u" by simp
    with assms have "x / ?u \<le> y / ?u" by (simp add: divide_right_mono)
    then have "(of_int (roundEven (x / ?u)) :: rat) \<le> of_int (roundEven (y / ?u))"
      by (simp only: of_int_le_iff roundEven_mono)
    with u show ?thesis
      unfolding f32_pos_eq [OF assms(1)] f32_pos_eq [OF y] 1
      by (simp only: mult_le_cancel_right_pos)
  next
    case 2
    then have "(2::rat) powi (exponent2 x + 1) \<le> 2 powi (exponent2 y)"
      by (intro power_int_increasing) simp_all
    with f32_pos_bounds(2) [OF assms(1)] f32_pos_bounds(1) [OF y] show ?thesis
      by linarith
  qed
qed

lemma f32_mono: "0 \<le> x \<Longrightarrow> x \<le> y \<Longrightarrow> f32 x \<le> f32 y"
  using f32_mono_pos [of x y] f32_nonneg [of y] by (cases "x = 0") simp_all

lemma f32_one: "f32 1 = 1"
  by code_simp

lemma f32_hundred: "f32 100 = 100"
  by code_simp

lemma percent_bounds:
  assumes "0 \<le> n" "n \<le> d" "0 < d"
  shows "0 \<le> percent n d" "percent n d \<le> 100"
proof -
  let ?a = "f32 (of_int n)" and ?b = "f32 (of_int d)"
  from assms have a: "0 \<le> ?a" and b: "0 < ?b" and ab: "?a \<le> ?b"
    by (simp_all add: f32_nonneg f32_pos f32_mono)
  then have q: "0 \<le> ?a / ?b" "?a / ?b \<le> 1" by simp_all
  then have r: "0 \<le> f32 (?a / ?b)" "f32 (?a / ?b) \<le> 1"
    using f32_mono [of "?a / ?b" 1] by (simp_all add: f32_nonneg f32_one)
  then have "0 \<le> f32 (?a / ?b) * 100" "f32 (?a / ?b) * 100 \<le> 100" by simp_all
  then show "0 \<le> percent n d" "percent n d \<le> 100"
    using f32_mono [of "f32 (?a / ?b) * 100" 100]
    by (simp_all add: percent_def f32_nonneg f32_hundred)
qed

lemma percent_zero: "percent 0 d = 0"
  by (simp add: percent_def)

subsection \<open>Rates of the conversion summary\<close>

lemma stepCA_converted:
  "converted (newCAFinalConversion_step now v c) = converted v + (if isCompletedCA c then 1 else 0)"
  by (cases "CAFinal.CompletedAt c")
     (auto simp: newCAFinalConversion_step_def Let_def isCompletedCA_def onConverted_fields
        onPending_fields)

lemma stepCA_fastestCount:
  "fastestCount (newCAFinalConversion_step now v c) =
     fastestCount v + (if isCompletedCA c \<and> elapsedCA c \<le> 30 * Minute then 1 else 0)"
  by (cases "CAFinal.CompletedAt c")
     (auto simp: newCAFinalConversion_step_def Let_def isCompletedCA_def elapsedCA_def
        onConverted_fields onPending_fields)

lemma loopCA_converted:
  "converted (foldl (newCAFinalConversion_step now) v cs) = converted v + number isCompletedCA cs"
  by (induction cs arbitrary: v) (simp_all add: stepCA_converted)

lemma loopCA_fastestCount:
  "fastestCount (foldl (newCAFinalConversion_step now) v cs) =
     fastestCount v + number (\<lambda>c. isCompletedCA c \<and> elapsedCA c \<le> 30 * Minute) cs"
  by (induction cs arbitrary: v) (simp_all add: stepCA_fastestCount)

lemma number_le_length: "number P xs \<le> int (length xs)"
  by (simp add: number_def)

lemma number_conj_le: "number (\<lambda>a. P a \<and> Q a) xs \<le> number P xs"
  by (induction xs) simp_all

lemma processed_le_total: "number isConverted xs + number isNotPassed xs \<le> int (length xs)"
  using number_partition [of xs] number_nonneg [of isPending xs] number_nonneg [of unclassified xs]
  by linarith

lemma newConversion_rates:
  "Conversion.Rate (newConversion now xs) =
     (if 0 < length xs then percent (number isConverted xs + number isNotPassed xs) (int (length xs))
      else 0)"
  "Conversion.FastestPercent (newConversion now xs) =
     (if 0 < number isConverted xs + number isNotPassed xs
      then percent (number (\<lambda>a. isConverted a \<and> elapsed a \<le> 30 * Minute) xs)
             (number isConverted xs + number isNotPassed xs)
      else 0)"
  by (simp_all add: newConversion_def Let_def loop_converted loop_notPassed loop_fastestCount)

lemma newConversion_rate_bounds:
  "0 \<le> Conversion.Rate (newConversion now xs)" "Conversion.Rate (newConversion now xs) \<le> 100"
  using percent_bounds [of "number isConverted xs + number isNotPassed xs" "int (length xs)"]
    processed_le_total [of xs]
  by (simp_all add: newConversion_rates)

lemma newConversion_fastest_bounds:
  "0 \<le> Conversion.FastestPercent (newConversion now xs)"
  "Conversion.FastestPercent (newConversion now xs) \<le> 100"
proof -
  have "number (\<lambda>a. isConverted a \<and> elapsed a \<le> 30 * Minute) xs
      \<le> number isConverted xs + number isNotPassed xs"
    using number_conj_le [of isConverted "\<lambda>a. elapsed a \<le> 30 * Minute" xs]
      number_nonneg [of isNotPassed xs] by linarith
  with percent_bounds [of "number (\<lambda>a. isConverted a \<and> elapsed a \<le> 30 * Minute) xs"
      "number isConverted xs + number isNotPassed xs"]
  show "0 \<le> Conversion.FastestPercent (newConversion now xs)"
    "Conversion.FastestPercent (newConversion now xs) \<le> 100"
    by (simp_all add: newConversion_rates)
qed

lemma newConversion_zero_denominator:
  "Conversion.Total (newConversion now xs) = 0 \<Longrightarrow> Conversion.Rate (newConversion now xs) = 0"
  "Conversion.Converted (newConversion now xs) + Conversion.NotPassed (newConversion now xs) = 0
     \<Longrightarrow> Conversion.Rate (newConversion now xs) = 0
       \<and> Conversion.AverageTime (newConversion now xs) = 0
       \<and> Conversion.FastestPercent (newConversion now xs) = 0"
  by (simp_all add: newConversion_def Let_def percent_zero)

lemma newCAFinalConversion_fields:
  "Conversion.Total (newCAFinalConversion now cs) = int (length cs)"
  "Conversion.Converted (newCAFinalConversion now cs) = number isCompletedCA cs"
  "Conversion.NotPassed (newCAFinalConversion now cs) = 0"
  "Conversion.Rate (newCAFinalConversion now cs) =
     (if 0 < length cs then percent (number isCompletedCA cs) (int (length cs)) else 0)"
  "Conversion.FastestPercent (newCAFinalConversion now cs) =
     (if 0 < number isCompletedCA cs
      then percent (number (\<lambda>c. isCompletedCA c \<and> elapsedCA c \<le> 30 * Minute) cs)
             (number isCompletedCA cs)
      else 0)"
  by (simp_all add: newCAFinalConversion_def Let_def loopCA_converted loopCA_fastestCount)

lemma newCAFinalConversion_bounds:
  "0 \<le> Conversion.Rate (newCAFinalConversion now cs)"
  "Conversion.Rate (newCAFinalConversion now cs) \<le> 100"
  "0 \<le> Conversion.FastestPercent (newCAFinalConversion now cs)"
  "Conversion.FastestPercent (newCAFinalConversion now cs) \<le> 100"
  using percent_bounds [of "number isCompletedCA cs" "int (length cs)"]
    percent_bounds [of "number (\<lambda>c. isCompletedCA c \<and> elapsedCA c \<le> 30 * Minute) cs"
      "number isCompletedCA cs"]
    number_le_length [of isCompletedCA cs]
    number_conj_le [of isCompletedCA "\<lambda>c. elapsedCA c \<le> 30 * Minute" cs]
  by (simp_all add: newCAFinalConversion_fields)

lemma newCAFinalConversion_zero_denominator:
  "Conversion.Total (newCAFinalConversion now cs) = 0
     \<Longrightarrow> Conversion.Rate (newCAFinalConversion now cs) = 0"
  "Conversion.Converted (newCAFinalConversion now cs) = 0
     \<Longrightarrow> Conversion.Rate (newCAFinalConversion now cs) = 0
       \<and> Conversion.AverageTime (newCAFinalConversion now cs) = 0
       \<and> Conversion.FastestPercent (newCAFinalConversion now cs) = 0"
  by (simp_all add: newCAFinalConversion_def Let_def percent_zero)

text \<open>
  The divisions do go wrong at a zero divisor, and the guards of the two conversion
  functions keep every divisor positive.
\<close>

lemma division_by_zero_anomalies:
  "percent_run 0 0 = Inl NaN" "percent_run 1 0 = Inl PosInf" "quotient64 a 0 = Inl DivisionPanic"
  by (simp_all add: percent_run_def quotient32_def quotient64_def f32_one)

lemma percent_run_pos: "0 < d \<Longrightarrow> percent_run n d = Inr (percent n d)"
  using f32_pos [of "of_int d"]
  by (simp add: percent_run_def quotient32_def percent_def)

lemma newConversion_run_eq: "newConversion_run now appIns = Inr (newConversion now appIns)"
  by (simp add: newConversion_run_def newConversion_def Let_def percent_run_pos quotient64_def)

lemma newCAFinalConversion_run_eq:
  "newCAFinalConversion_run now cs = Inr (newCAFinalConversion now cs)"
  by (simp add: newCAFinalConversion_run_def newCAFinalConversion_def Let_def percent_run_pos
        quotient64_def)

text \<open>
  Claim C5. Neither conversion function divides by zero: run with divisions that can
  go wrong, each returns a summary, never NaN, an infinity or a panic, and the summary
  is the one of \<open>newConversion\<close> and \<open>newCAFinalConversion\<close>. In it the conversion rate
  and the fastest-percent lie between 0 and 100, in float32 arithmetic. The rate is 0
  when the total is 0; when the processed count (converted plus not-passed for
  applications, converted for reviews) is 0, the rate, the average time and the
  fastest-percent are 0.
\<close>

theorem rates_within_bounds:
  "newConversion_run now appIns = Inr (newConversion now appIns)
   \<and> newCAFinalConversion_run now cs = Inr (newCAFinalConversion now cs)
   \<and> 0 \<le> Conversion.Rate (newConversion now appIns)
   \<and> Conversion.Rate (newConversion now appIns) \<le> 100
   \<and> 0 \<le> Conversion.FastestPercent (newConversion now appIns)
   \<and> Conversion.FastestPercent (newConversion now appIns) \<le> 100
   \<and> (Conversion.Total (newConversion now appIns) = 0
        \<longrightarrow> Conversion.Rate (newConversion now appIns) = 0)
   \<and> (Conversion.Converted (newConversion now appIns)
          + Conversion.NotPassed (newConversion now appIns) = 0
        \<longrightarrow> Conversion.Rate (newConversion now appIns) = 0
          \<and> Conversion.AverageTime (newConversion now appIns) = 0
          \<and> Conversion.FastestPercent (newConversion now appIns) = 0)
   \<and> 0 \<le> Conversion.Rate (newCAFinalConversion now cs)
   \<and> Conversion.Rate (newCAFinalConversion now cs) \<le> 100
   \<and> 0 \<le> Conversion.FastestPercent (newCAFinalConversion now cs)
   \<and> Conversion.FastestPercent (newCAFinalConversion now cs) \<le> 100
   \<and> (Conversion.Total (newCAFinalConversion now cs) = 0
        \<longrightarrow> Conversion.Rate (newCAFinalConversion now cs) = 0)
   \<and> (Conversion.Converted (newCAFinalConversion now cs) = 0
        \<longrightarrow> Conversion.Rate (newCAFinalConversion now cs) = 0
          \<and> Conversion.AverageTime (newCAFinalConversion now cs) = 0
          \<and> Conversion.FastestPercent (newCAFinalConversion now cs) = 0)"
  using newConversion_rate_bounds [of now appIns] newConversion_fastest_bounds [of now appIns]
    newConversion_zero_denominator [of now appIns]
    newCAFinalConversion_bounds [of now cs] newCAFinalConversion_zero_denominator [of now cs]
    newConversion_run_eq [of now appIns] newCAFinalConversion_run_eq [of now cs]
  by blast

theorem rates_within_bounds_witness:
  "newConversion_run 0 [] = Inr (newConversion 0 [])
   \<and> newCAFinalConversion_run 0 [sampleCA ''A'' ''Open'' None 0]
       = Inr (newCAFinalConversion 0 [sampleCA ''A'' ''Open'' None 0])
   \<and> Conversion.Total (newConversion 0 []) = 0
   \<and> Conversion.Rate (newConversion 0 []) = 0
   \<and> Conversion.Converted (newConversion 0 [sample ''A'' '''' None 0])
       + Conversion.NotPassed (newConversion 0 [sample ''A'' '''' None 0]) = 0
   \<and> Conversion.Rate (newConversion 0 [sample ''A'' '''' None 0]) = 0
   \<and> Conversion.AverageTime (newConversion 0 [sample ''A'' '''' None 0]) = 0
   \<and> Conversion.FastestPercent (newConversion 0 [sample ''A'' '''' None 0]) = 0
   \<and> Conversion.Converted (newCAFinalConversion 0 [sampleCA ''A'' ''Open'' None 0]) = 0
   \<and> Conversion.Rate (newCAFinalConversion 0 [sampleCA ''A'' ''Open'' None 0]) = 0"
proof -
  note t1 = rates_within_bounds [of 0 "[]" "[sampleCA ''A'' ''Open'' None 0]"]
  note t2 = rates_within_bounds [of 0 "[sample ''A'' '''' None 0]" "[]"]
  have h1: "Conversion.Total (newConversion 0 []) = 0"
    by (simp add: newConversion_counts)
  have h2: "Conversion.Converted (newConversion 0 [sample ''A'' '''' None 0])
       + Conversion.NotPassed (newConversion 0 [sample ''A'' '''' None 0]) = 0"
    by code_simp
  have h3: "Conversion.Converted (newCAFinalConversion 0 [sampleCA ''A'' ''Open'' None 0]) = 0"
    by code_simp
  from t1 t2 h1 h2 h3 show ?thesis by blast
qed

subsection \<open>Best time\<close>

lemma Minute_pos: "0 < Minute"
  by (simp add: Minute_def)

lemma least_Cons_pos:
  assumes "0 < d" "\<forall>e\<in>set ds. 0 < e"
  shows "least (d # ds) = (if least ds = 0 \<or> d < least ds then d else least ds)"
proof (cases "ds = []")
  case True
  then show ?thesis by (simp add: least_def)
next
  case False
  define M where "M = Min (set ds)"
  from False assms(2) Min_in [of "set ds"] have "0 < M" by (simp add: M_def)
  moreover from False have "least ds = M" by (simp add: least_def M_def)
  moreover from False have "least (d # ds) = min d M" by (simp add: least_def M_def)
  ultimately show ?thesis by (simp add: min_def)
qed

lemma loop_bestTime:
  assumes "bestTime v = 0 \<or> Minute \<le> bestTime v"
  shows "bestTime (foldl (newConversion_step now) v xs)
     = least ((if bestTime v = 0 then [] else [bestTime v]) @ qualifying xs)"
  using assms
proof (induction xs arbitrary: v)
  case Nil
  then show ?case by (simp add: qualifying_def least_def)
next
  case (Cons a xs)
  let ?v = "newConversion_step now v a"
  have inv: "bestTime ?v = 0 \<or> Minute \<le> bestTime ?v"
    using Cons.prems by (simp add: step_bestTime)
  have pos: "\<forall>e\<in>set (qualifying xs). 0 < e"
    using Minute_pos by (auto simp: qualifying_def)
  show ?case
  proof (cases "isConverted a \<and> Minute \<le> elapsed a")
    case False
    then have "bestTime ?v = bestTime v" "qualifying (a # xs) = qualifying xs"
      by (auto simp: step_bestTime qualifying_def)
    with Cons.IH [OF inv] show ?thesis by simp
  next
    case True
    then have q: "qualifying (a # xs) = elapsed a # qualifying xs"
      by (simp add: qualifying_def)
    from True Minute_pos have e: "0 < elapsed a" by linarith
    show ?thesis
    proof (cases "bestTime v = 0")
      case True
      with \<open>isConverted a \<and> Minute \<le> elapsed a\<close> e have "bestTime ?v = elapsed a"
        by (simp add: step_bestTime)
      with Cons.IH [OF inv] e True show ?thesis by (simp add: q)
    next
      case False
      with Cons.prems Minute_pos have b: "0 < bestTime v" by linarith
      show ?thesis
      proof (cases "elapsed a < bestTime v")
        case True
        with \<open>isConverted a \<and> Minute \<le> elapsed a\<close> have bv: "bestTime ?v = elapsed a"
          by (simp add: step_bestTime)
        have "least (bestTime v # elapsed a # qualifying xs) = least (elapsed a # qualifying xs)"
          using True b e pos by (simp add: least_Cons_pos)
        with Cons.IH [OF inv] bv e False show ?thesis by (simp add: q)
      next
        case nl: False
        with False have bv: "bestTime ?v = bestTime v"
          by (simp add: step_bestTime)
        have "least (bestTime v # elapsed a # qualifying xs) = least (bestTime v # qualifying xs)"
          using nl b e pos by (simp add: least_Cons_pos)
        with Cons.IH [OF inv] bv False show ?thesis by (simp add: q)
      qed
    qed
  qed
qed

lemma newConversion_bestTime:
  "Conversion.BestTime (newConversion now appIns) = least (qualifying appIns)"
  using loop_bestTime [of tally0 now appIns]
  by (simp add: newConversion_def Let_def)
lemma findBestTime_step_eq:
  "findBestTime_step (e, t) em =
     (if 0 < bestOf em \<and> (t = 0 \<or> bestOf em < t) then (fst em, bestOf em) else (e, t))"
  by (cases em) (simp add: findBestTime_step_def bestOf_def)

lemma findBestTime_loop:
  "(foldl findBestTime_step ('''', 0) p = ('''', 0) \<and> (\<forall>em\<in>set p. bestOf em \<le> 0))
   \<or> (\<exists>em\<in>set p. foldl findBestTime_step ('''', 0) p = (fst em, bestOf em) \<and> 0 < bestOf em
        \<and> (\<forall>em'\<in>set p. 0 < bestOf em' \<longrightarrow> bestOf em \<le> bestOf em'))"
proof (induction p rule: rev_induct)
  case Nil
  show ?case by simp
next
  case (snoc x p)
  obtain e t where r: "foldl findBestTime_step ('''', 0) p = (e, t)"
    by (cases "foldl findBestTime_step ('''', 0) p")
  from snoc r consider
      (none) "e = ''''" "t = 0" "\<forall>em\<in>set p. bestOf em \<le> 0"
    | (some) em where "em \<in> set p" "e = fst em" "t = bestOf em" "0 < bestOf em"
        "\<forall>em'\<in>set p. 0 < bestOf em' \<longrightarrow> bestOf em \<le> bestOf em'"
    by auto
  then show ?case
  proof cases
    case none
    then show ?thesis
      by (cases "0 < bestOf x") (auto simp: r findBestTime_step_eq)
  next
    case some
    show ?thesis
    proof (cases "0 < bestOf x \<and> bestOf x < t")
      case True
      with some have "\<forall>em'\<in>set (p @ [x]). 0 < bestOf em' \<longrightarrow> bestOf x \<le> bestOf em'"
        by auto
      with True show ?thesis
        by (intro disjI2 bexI [of _ x]) (simp_all add: r findBestTime_step_eq)
    next
      case False
      with some have "foldl findBestTime_step ('''', 0) (p @ [x]) = (fst em, bestOf em)"
        by (auto simp: r findBestTime_step_eq)
      moreover from False some
      have "\<forall>em'\<in>set (p @ [x]). 0 < bestOf em' \<longrightarrow> bestOf em \<le> bestOf em'"
        by auto
      ultimately show ?thesis
        using some by (intro disjI2 bexI [of _ em]) simp_all
    qed
  qed
qed


lemma findBestTimeUsedByExecutor_some:
  assumes "em \<in> set p" "0 < bestOf em"
  shows "\<exists>em\<in>set p. findBestTimeUsedByExecutor p
       = \<lparr>BestTimeExecutor.DisplayName = fst em, BestTimeExecutor.BestTime = bestOf em\<rparr>
     \<and> 0 < bestOf em \<and> (\<forall>em'\<in>set p. 0 < bestOf em' \<longrightarrow> bestOf em \<le> bestOf em')"
proof -
  from assms have nonempty: "p \<noteq> []" by auto
  from assms have "\<not> (\<forall>em\<in>set p. bestOf em \<le> 0)"
    by (metis not_less)
  with findBestTime_loop [of p] obtain em' where "em' \<in> set p"
      "foldl findBestTime_step ('''', 0) p = (fst em', bestOf em')" "0 < bestOf em'"
      "\<forall>em''\<in>set p. 0 < bestOf em'' \<longrightarrow> bestOf em' \<le> bestOf em''"
    by blast
  with nonempty show ?thesis
    by (intro bexI [of _ em']) (simp_all add: findBestTimeUsedByExecutor_def)
qed

subsection \<open>Top performer\<close>




subsection \<open>The order of the map visits\<close>










lemma permuting_sets:
  assumes "permuting s"
  shows "mset (topVisit s m) = mset m" "mset (boardVisit s m) = mset m"
    "mset (bestVisit s m) = mset m" "mset (productVisit s g) = mset g"
    "set (topVisit s m) = set m" "set (bestVisit s m) = set m"
proof -
  from assms show a: "mset (topVisit s m) = mset m" "mset (boardVisit s m) = mset m"
    "mset (bestVisit s m) = mset m" "mset (productVisit s g) = mset g"
    by (simp_all add: permuting_def)
  from a(1) show "set (topVisit s m) = set m" by (rule mset_eq_setD)
  from a(3) show "set (bestVisit s m) = set m" by (rule mset_eq_setD)
qed






lemma newOverview_fields:
  "Overview.ActiveExecutor (newOverview s now appIns) = int (length (groupAppInByExecutor appIns))"
  "Overview.TopPerformer (newOverview s now appIns)
     = getTopPerformer (topVisit s (performances now appIns))"
  "Overview.Conversion (newOverview s now appIns) = newConversion now appIns"
  "Overview.TimeIntervalsByConverted (newOverview s now appIns)
     = createTimeIntervalsByConverted appIns"
  "Overview.TimeIntervalsByPending (newOverview s now appIns)
     = createTimeIntervalsByPending now appIns"
  "Overview.BestTimeUsed (newOverview s now appIns)
     = findBestTimeUsedByExecutor (bestVisit s (performances now appIns))"
  "Overview.Leaderboards (newOverview s now appIns)
     = createLeaderboards (boardVisit s (performances now appIns))"
  "Overview.ProductMetrics (newOverview s now appIns)
     = calculatePerformanceConversionMetricsByProduct (productVisit s) now appIns"
  "Overview.CAFinalOverview (newOverview s now appIns) = None"
  "Overview.more (newOverview s now appIns) = ()"
  by (simp_all add: newOverview_def Let_def performances_def)




subsection \<open>The best-time performer\<close>

lemma performances_entry:
  assumes "em \<in> set (performances now appIns)"
  shows "fst em \<noteq> ''''
     \<and> bestOf em = least (qualifying
          (filter (\<lambda>a. AppIn.Executor a \<noteq> '''' \<and> AppIn.Executor a = fst em) appIns))"
proof -
  from assms obtain kg where kg: "kg \<in> set (groupAppInByExecutor appIns)"
    and em: "em = (fst kg, \<lparr>performerMetric.DisplayName = fst kg,
               performerMetric.Conversion = newConversion now (snd kg),
               performerMetric.Performances = createTimeIntervalsByConverted (snd kg)\<rparr>)"
    unfolding performances_def calculatePerformanceConversionMetricsByExecutor_def
    by (auto simp: case_prod_beta)
  from em have k: "fst em = fst kg" and bt: "bestOf em = least (qualifying (snd kg))"
    by (simp_all add: bestOf_def newConversion_bestTime)
  from kg have mem: "(fst kg, snd kg) \<in> set (groupAppInByExecutor appIns)" by simp
  with groupAppInByExecutor_map_of(1) [of appIns]
  have "map_of (groupAppInByExecutor appIns) (fst kg) = Some (snd kg)"
    by (rule map_of_is_SomeI)
  then have "grouped (\<lambda>a. AppIn.Executor a \<noteq> '''') AppIn.Executor appIns (fst kg) = Some (snd kg)"
    by (simp only: groupAppInByExecutor_map_of(2))
  then have g: "snd kg = filter (\<lambda>a. AppIn.Executor a \<noteq> '''' \<and> AppIn.Executor a = fst kg) appIns"
    by (simp add: grouped_def split: list.splits)
  from groupAppInByExecutor_members [OF mem] have "fst kg \<noteq> ''''" by (rule conjunct1)
  with g show ?thesis unfolding k bt by simp
qed

text \<open>
  Claim C2 holds in its first two parts: the best time of a performer is the least
  elapsed time of at least one minute among the performer's converted records, 0 when
  there is none, and when some performer has a non-zero best time the best-time
  performer is one with the least non-zero best time.
\<close>

lemma best_time_performer:
  assumes "permuting s"
  shows "\<forall>em\<in>set (performances now appIns).
       bestOf em = least (qualifying
          (filter (\<lambda>a. AppIn.Executor a \<noteq> '''' \<and> AppIn.Executor a = fst em) appIns))"
    and "\<exists>em\<in>set (performances now appIns). 0 < bestOf em \<Longrightarrow>
       \<exists>em\<in>set (performances now appIns).
          Overview.BestTimeUsed (newOverview s now appIns)
            = \<lparr>BestTimeExecutor.DisplayName = fst em, BestTimeExecutor.BestTime = bestOf em\<rparr>
          \<and> 0 < bestOf em
          \<and> (\<forall>em'\<in>set (performances now appIns). 0 < bestOf em' \<longrightarrow> bestOf em \<le> bestOf em')"
proof -
  show "\<forall>em\<in>set (performances now appIns).
       bestOf em = least (qualifying
          (filter (\<lambda>a. AppIn.Executor a \<noteq> '''' \<and> AppIn.Executor a = fst em) appIns))"
    using performances_entry [of _ now appIns] by blast
next
  assume "\<exists>em\<in>set (performances now appIns). 0 < bestOf em"
  then obtain em where "em \<in> set (bestVisit s (performances now appIns))" "0 < bestOf em"
    by (auto simp: permuting_sets [OF assms])
  from findBestTimeUsedByExecutor_some [OF this]
  show "\<exists>em\<in>set (performances now appIns).
          Overview.BestTimeUsed (newOverview s now appIns)
            = \<lparr>BestTimeExecutor.DisplayName = fst em, BestTimeExecutor.BestTime = bestOf em\<rparr>
          \<and> 0 < bestOf em
          \<and> (\<forall>em'\<in>set (performances now appIns). 0 < bestOf em' \<longrightarrow> bestOf em \<le> bestOf em')"
    by (simp add: newOverview_fields permuting_sets [OF assms])
qed

text \<open>
  Claim C2 fails in its last part. \<^verbatim>\<open>findBestTimeUsedByExecutor\<close> answers ``N/A'' only
  for the empty map. For a performer whose only record is pending, no performer has a
  non-zero best time, and the result is the empty name with a zero duration.
\<close>

theorem best_time_without_qualifier:
  "Overview.BestTimeUsed (newOverview inOrder 0 [sample ''A'' '''' None 0])
     = \<lparr>BestTimeExecutor.DisplayName = '''', BestTimeExecutor.BestTime = 0\<rparr>
   \<and> Overview.BestTimeUsed (newOverview inOrder 0 [])
     = \<lparr>BestTimeExecutor.DisplayName = ''N/A'', BestTimeExecutor.BestTime = 0\<rparr>"
  unfolding newOverview_fields by code_simp

subsection \<open>The run of the Overview\<close>

lemma each_run_Inr:
  assumes "\<And>x. f x = Inr (g x)"
  shows "each_run f xs = Inr (map g xs)"
  by (induction xs) (simp_all add: assms)

lemma calculatePerformanceConversionMetricsByExecutor_run_eq:
  "calculatePerformanceConversionMetricsByExecutor_run now groups
     = Inr (calculatePerformanceConversionMetricsByExecutor now groups)"
  unfolding calculatePerformanceConversionMetricsByExecutor_run_def
    calculatePerformanceConversionMetricsByExecutor_def
  by (rule each_run_Inr) (simp add: newConversion_run_eq split: prod.splits)

lemma calculateCAFinalConversionMetricsByExecutor_run_eq:
  "calculateCAFinalConversionMetricsByExecutor_run now groups
     = Inr (calculateCAFinalConversionMetricsByExecutor now groups)"
  unfolding calculateCAFinalConversionMetricsByExecutor_run_def
    calculateCAFinalConversionMetricsByExecutor_def
  by (rule each_run_Inr) (simp add: newCAFinalConversion_run_eq split: prod.splits)

lemma calculatePerformanceConversionMetricsByProduct_run_eq:
  "calculatePerformanceConversionMetricsByProduct_run visit now appIns
     = Inr (calculatePerformanceConversionMetricsByProduct visit now appIns)"
proof -
  have "each_run (newProductMetrics_run now) gs = Inr (map (newProductMetrics now) gs)" for gs
    by (rule each_run_Inr)
       (simp add: newProductMetrics_run_def newProductMetrics_def newConversion_run_eq Let_def
          split: prod.splits)
  then show ?thesis
    by (simp add: calculatePerformanceConversionMetricsByProduct_run_def
          calculatePerformanceConversionMetricsByProduct_def Let_def)
qed

text \<open>The engine returns an Overview on every input: no run ends in an anomaly.\<close>

lemma newOverview_run_eq: "newOverview_run s now appIns = Inr (newOverview s now appIns)"
  by (simp add: newOverview_run_def newOverview_def Let_def newConversion_run_eq
        calculatePerformanceConversionMetricsByExecutor_run_eq
        calculatePerformanceConversionMetricsByProduct_run_eq)

lemma newCAFinalOverview_run_eq:
  "newCAFinalOverview_run s now appins = Inr (newCAFinalOverview s now appins)"
  by (simp add: newCAFinalOverview_run_def newCAFinalOverview_def Let_def
        newCAFinalConversion_run_eq calculateCAFinalConversionMetricsByExecutor_run_eq)

subsection \<open>Empty input\<close>

lemma newOverview_Nil_inOrder:
  "newOverview inOrder now [] =
     \<lparr>Overview.ActiveExecutor = 0,
      Overview.TopPerformer =
        \<lparr>TopPerformer.DisplayName = '''', TopPerformer.Converted = 0,
         TopPerformer.ConversionRate = 0\<rparr>,
      Overview.Conversion =
        \<lparr>Conversion.Total = 0, Conversion.Converted = 0, Conversion.NotPassed = 0,
         Conversion.Rate = 0, Conversion.Fastest = 0, Conversion.FastestPercent = 0,
         Conversion.NeedAttention = 0, Conversion.BestTime = 0, Conversion.AverageTime = 0\<rparr>,
      Overview.TimeIntervalsByConverted =
        [\<lparr>TimeInterval.Title = ''<30min'', TimeInterval.Total = 0\<rparr>,
         \<lparr>TimeInterval.Title = ''<1h'', TimeInterval.Total = 0\<rparr>,
         \<lparr>TimeInterval.Title = ''<2h'', TimeInterval.Total = 0\<rparr>,
         \<lparr>TimeInterval.Title = ''<3h'', TimeInterval.Total = 0\<rparr>,
         \<lparr>TimeInterval.Title = ''<4h'', TimeInterval.Total = 0\<rparr>,
         \<lparr>TimeInterval.Title = ''<5h'', TimeInterval.Total = 0\<rparr>,
         \<lparr>TimeInterval.Title = ''5h+'', TimeInterval.Total = 0\<rparr>],
      Overview.TimeIntervalsByPending =
        [\<lparr>TimeInterval.Title = ''<30min'', TimeInterval.Total = 0\<rparr>,
         \<lparr>TimeInterval.Title = ''<1h'', TimeInterval.Total = 0\<rparr>,
         \<lparr>TimeInterval.Title = ''<2h'', TimeInterval.Total = 0\<rparr>,
         \<lparr>TimeInterval.Title = ''<3h'', TimeInterval.Total = 0\<rparr>,
         \<lparr>TimeInterval.Title = ''<4h'', TimeInterval.Total = 0\<rparr>,
         \<lparr>TimeInterval.Title = ''<5h'', TimeInterval.Total = 0\<rparr>,
         \<lparr>TimeInterval.Title = ''5h+'', TimeInterval.Total = 0\<rparr>],
      Overview.BestTimeUsed = \<lparr>BestTimeExecutor.DisplayName = ''N/A'', BestTimeExecutor.BestTime = 0\<rparr>,
      Overview.Leaderboards = [],
      Overview.ProductMetrics = [],
      Overview.CAFinalOverview = None\<rparr>"
  by code_simp

lemma newCAFinalOverview_Nil_inOrder:
  "newCAFinalOverview inOrder now [] =
     \<lparr>CAFinalOverview.ActiveExecutor = 0,
      CAFinalOverview.TopPerformer =
        \<lparr>TopPerformer.DisplayName = '''', TopPerformer.Converted = 0,
         TopPerformer.ConversionRate = 0\<rparr>,
      CAFinalOverview.Conversion =
        \<lparr>Conversion.Total = 0, Conversion.Converted = 0, Conversion.NotPassed = 0,
         Conversion.Rate = 0, Conversion.Fastest = 0, Conversion.FastestPercent = 0,
         Conversion.NeedAttention = 0, Conversion.BestTime = 0, Conversion.AverageTime = 0\<rparr>,
      CAFinalOverview.TimeIntervalsByConverted =
        [\<lparr>TimeInterval.Title = ''<30min'', TimeInterval.Total = 0\<rparr>,
         \<lparr>TimeInterval.Title = ''<1h'', TimeInterval.Total = 0\<rparr>,
         \<lparr>TimeInterval.Title = ''<2h'', TimeInterval.Total = 0\<rparr>,
         \<lparr>TimeInterval.Title = ''<3h'', TimeInterval.Total = 0\<rparr>,
         \<lparr>TimeInterval.Title = ''<4h'', TimeInterval.Total = 0\<rparr>,
         \<lparr>TimeInterval.Title = ''<5h'', TimeInterval.Total = 0\<rparr>,
         \<lparr>TimeInterval.Title = ''5h+'', TimeInterval.Total = 0\<rparr>],
      CAFinalOverview.TimeIntervalsByPending =
        [\<lparr>TimeInterval.Title = ''<30min'', TimeInterval.Total = 0\<rparr>,
         \<lparr>TimeInterval.Title = ''<1h'', TimeInterval.Total = 0\<rparr>,
         \<lparr>TimeInterval.Title = ''<2h'', TimeInterval.Total = 0\<rparr>,
         \<lparr>TimeInterval.Title = ''<3h'', TimeInterval.Total = 0\<rparr>,
         \<lparr>TimeInterval.Title = ''<4h'', TimeInterval.Total = 0\<rparr>,
         \<lparr>TimeInterval.Title = ''<5h'', TimeInterval.Total = 0\<rparr>,
         \<lparr>TimeInterval.Title = ''5h+'', TimeInterval.Total = 0\<rparr>],
      CAFinalOverview.BestTimeUsed = \<lparr>BestTimeExecutor.DisplayName = ''N/A'', BestTimeExecutor.BestTime = 0\<rparr>,
      CAFinalOverview.Leaderboards = []\<rparr>"
  by code_simp

text \<open>
  Claim C7, as stated, fails for the top performer. On the empty list
  \<^verbatim>\<open>getTopPerformer\<close> returns the zero record, whose name is empty: it carries no
  ``not applicable'' marker. Only the best-time performer is ``N/A''.
\<close>

theorem empty_input_top_performer_unnamed:
  "Overview.TopPerformer (newOverview inOrder 0 [])
     = \<lparr>TopPerformer.DisplayName = '''', TopPerformer.Converted = 0,
        TopPerformer.ConversionRate = 0\<rparr>
   \<and> TopPerformer.DisplayName (Overview.TopPerformer (newOverview inOrder 0 [])) \<noteq> ''N/A''
   \<and> BestTimeExecutor.DisplayName (Overview.BestTimeUsed (newOverview inOrder 0 [])) = ''N/A''"
  unfolding newOverview_fields by code_simp

text \<open>
  Claim C7, amended. On the empty list the engine returns a complete Overview without
  an anomaly, whatever order the runtime visits the (empty) maps in: no active
  performer, a conversion summary of zeros, both histograms with their seven buckets
  at zero, an empty leaderboard, no product metrics, the best-time performer ``N/A''
  with a zero duration, and as top performer the zero record (empty name, zero count
  and rate). The same holds for the Review stream.
\<close>

theorem empty_input_overview:
  assumes "permuting s"
  shows "newOverview_run s now [] = Inr
     (\<lparr>Overview.ActiveExecutor = 0,
      Overview.TopPerformer =
        \<lparr>TopPerformer.DisplayName = '''', TopPerformer.Converted = 0,
         TopPerformer.ConversionRate = 0\<rparr>,
      Overview.Conversion =
        \<lparr>Conversion.Total = 0, Conversion.Converted = 0, Conversion.NotPassed = 0,
         Conversion.Rate = 0, Conversion.Fastest = 0, Conversion.FastestPercent = 0,
         Conversion.NeedAttention = 0, Conversion.BestTime = 0, Conversion.AverageTime = 0\<rparr>,
      Overview.TimeIntervalsByConverted =
        [\<lparr>TimeInterval.Title = ''<30min'', TimeInterval.Total = 0\<rparr>,
         \<lparr>TimeInterval.Title = ''<1h'', TimeInterval.Total = 0\<rparr>,
         \<lparr>TimeInterval.Title = ''<2h'', TimeInterval.Total = 0\<rparr>,
         \<lparr>TimeInterval.Title = ''<3h'', TimeInterval.Total = 0\<rparr>,
         \<lparr>TimeInterval.Title = ''<4h'', TimeInterval.Total = 0\<rparr>,
         \<lparr>TimeInterval.Title = ''<5h'', TimeInterval.Total = 0\<rparr>,
         \<lparr>TimeInterval.Title = ''5h+'', TimeInterval.Total = 0\<rparr>],
      Overview.TimeIntervalsByPending =
        [\<lparr>TimeInterval.Title = ''<30min'', TimeInterval.Total = 0\<rparr>,
         \<lparr>TimeInterval.Title = ''<1h'', TimeInterval.Total = 0\<rparr>,
         \<lparr>TimeInterval.Title = ''<2h'', TimeInterval.Total = 0\<rparr>,
         \<lparr>TimeInterval.Title = ''<3h'', TimeInterval.Total = 0\<rparr>,
         \<lparr>TimeInterval.Title = ''<4h'', TimeInterval.Total = 0\<rparr>,
         \<lparr>TimeInterval.Title = ''<5h'', TimeInterval.Total = 0\<rparr>,
         \<lparr>TimeInterval.Title = ''5h+'', TimeInterval.Total = 0\<rparr>],
      Overview.BestTimeUsed = \<lparr>BestTimeExecutor.DisplayName = ''N/A'', BestTimeExecutor.BestTime = 0\<rparr>,
      Overview.Leaderboards = [],
      Overview.ProductMetrics = [],
      Overview.CAFinalOverview = None\<rparr>)
   \<and> newCAFinalOverview_run s now [] = Inr
     (\<lparr>CAFinalOverview.ActiveExecutor = 0,
      CAFinalOverview.TopPerformer =
        \<lparr>TopPerformer.DisplayName = '''', TopPerformer.Converted = 0,
         TopPerformer.ConversionRate = 0\<rparr>,
      CAFinalOverview.Conversion =
        \<lparr>Conversion.Total = 0, Conversion.Converted = 0, Conversion.NotPassed = 0,
         Conversion.Rate = 0, Conversion.Fastest = 0, Conversion.FastestPercent = 0,
         Conversion.NeedAttention = 0, Conversion.BestTime = 0, Conversion.AverageTime = 0\<rparr>,
      CAFinalOverview.TimeIntervalsByConverted =
        [\<lparr>TimeInterval.Title = ''<30min'', TimeInterval.Total = 0\<rparr>,
         \<lparr>TimeInterval.Title = ''<1h'', TimeInterval.Total = 0\<rparr>,
         \<lparr>TimeInterval.Title = ''<2h'', TimeInterval.Total = 0\<rparr>,
         \<lparr>TimeInterval.Title = ''<3h'', TimeInterval.Total = 0\<rparr>,
         \<lparr>TimeInterval.Title = ''<4h'', TimeInterval.Total = 0\<rparr>,
         \<lparr>TimeInterval.Title = ''<5h'', TimeInterval.Total = 0\<rparr>,
         \<lparr>TimeInterval.Title = ''5h+'', TimeInterval.Total = 0\<rparr>],
      CAFinalOverview.TimeIntervalsByPending =
        [\<lparr>TimeInterval.Title = ''<30min'', TimeInterval.Total = 0\<rparr>,
         \<lparr>TimeInterval.Title = ''<1h'', TimeInterval.Total = 0\<rparr>,
         \<lparr>TimeInterval.Title = ''<2h'', TimeInterval.Total = 0\<rparr>,
         \<lparr>TimeInterval.Title = ''<3h'', TimeInterval.Total = 0\<rparr>,
         \<lparr>TimeInterval.Title = ''<4h'', TimeInterval.Total = 0\<rparr>,
         \<lparr>TimeInterval.Title = ''<5h'', TimeInterval.Total = 0\<rparr>,
         \<lparr>TimeInterval.Title = ''5h+'', TimeInterval.Total = 0\<rparr>],
      CAFinalOverview.BestTimeUsed = \<lparr>BestTimeExecutor.DisplayName = ''N/A'', BestTimeExecutor.BestTime = 0\<rparr>,
      CAFinalOverview.Leaderboards = []\<rparr>)
   \<and> newOverview s now [] =
     \<lparr>Overview.ActiveExecutor = 0,
      Overview.TopPerformer =
        \<lparr>TopPerformer.DisplayName = '''', TopPerformer.Converted = 0,
         TopPerformer.ConversionRate = 0\<rparr>,
      Overview.Conversion =
        \<lparr>Conversion.Total = 0, Conversion.Converted = 0, Conversion.NotPassed = 0,
         Conversion.Rate = 0, Conversion.Fastest = 0, Conversion.FastestPercent = 0,
         Conversion.NeedAttention = 0, Conversion.BestTime = 0, Conversion.AverageTime = 0\<rparr>,
      Overview.TimeIntervalsByConverted =
        [\<lparr>TimeInterval.Title = ''<30min'', TimeInterval.Total = 0\<rparr>,
         \<lparr>TimeInterval.Title = ''<1h'', TimeInterval.Total = 0\<rparr>,
         \<lparr>TimeInterval.Title = ''<2h'', TimeInterval.Total = 0\<rparr>,
         \<lparr>TimeInterval.Title = ''<3h'', TimeInterval.Total = 0\<rparr>,
         \<lparr>TimeInterval.Title = ''<4h'', TimeInterval.Total = 0\<rparr>,
         \<lparr>TimeInterval.Title = ''<5h'', TimeInterval.Total = 0\<rparr>,
         \<lparr>TimeInterval.Title = ''5h+'', TimeInterval.Total = 0\<rparr>],
      Overview.TimeIntervalsByPending =
        [\<lparr>TimeInterval.Title = ''<30min'', TimeInterval.Total = 0\<rparr>,
         \<lparr>TimeInterval.Title = ''<1h'', TimeInterval.Total = 0\<rparr>,
         \<lparr>TimeInterval.Title = ''<2h'', TimeInterval.Total = 0\<rparr>,
         \<lparr>TimeInterval.Title = ''<3h'', TimeInterval.Total = 0\<rparr>,
         \<lparr>TimeInterval.Title = ''<4h'', TimeInterval.Total = 0\<rparr>,
         \<lparr>TimeInterval.Title = ''<5h'', TimeInterval.Total = 0\<rparr>,
         \<lparr>TimeInterval.Title = ''5h+'', TimeInterval.Total = 0\<rparr>],
      Overview.BestTimeUsed = \<lparr>BestTimeExecutor.DisplayName = ''N/A'', BestTimeExecutor.BestTime = 0\<rparr>,
      Overview.Leaderboards = [],
      Overview.ProductMetrics = [],
      Overview.CAFinalOverview = None\<rparr>
   \<and> newCAFinalOverview s now [] =
     \<lparr>CAFinalOverview.ActiveExecutor = 0,
      CAFinalOverview.TopPerformer =
        \<lparr>TopPerformer.DisplayName = '''', TopPerformer.Converted = 0,
         TopPerformer.ConversionRate = 0\<rparr>,
      CAFinalOverview.Conversion =
        \<lparr>Conversion.Total = 0, Conversion.Converted = 0, Conversion.NotPassed = 0,
         Conversion.Rate = 0, Conversion.Fastest = 0, Conversion.FastestPercent = 0,
         Conversion.NeedAttention = 0, Conversion.BestTime = 0, Conversion.AverageTime = 0\<rparr>,
      CAFinalOverview.TimeIntervalsByConverted =
        [\<lparr>TimeInterval.Title = ''<30min'', TimeInterval.Total = 0\<rparr>,
         \<lparr>TimeInterval.Title = ''<1h'', TimeInterval.Total = 0\<rparr>,
         \<lparr>TimeInterval.Title = ''<2h'', TimeInterval.Total = 0\<rparr>,
         \<lparr>TimeInterval.Title = ''<3h'', TimeInterval.Total = 0\<rparr>,
         \<lparr>TimeInterval.Title = ''<4h'', TimeInterval.Total = 0\<rparr>,
         \<lparr>TimeInterval.Title = ''<5h'', TimeInterval.Total = 0\<rparr>,
         \<lparr>TimeInterval.Title = ''5h+'', TimeInterval.Total = 0\<rparr>],
      CAFinalOverview.TimeIntervalsByPending =
        [\<lparr>TimeInterval.Title = ''<30min'', TimeInterval.Total = 0\<rparr>,
         \<lparr>TimeInterval.Title = ''<1h'', TimeInterval.Total = 0\<rparr>,
         \<lparr>TimeInterval.Title = ''<2h'', TimeInterval.Total = 0\<rparr>,
         \<lparr>TimeInterval.Title = ''<3h'', TimeInterval.Total = 0\<rparr>,
         \<lparr>TimeInterval.Title = ''<4h'', TimeInterval.Total = 0\<rparr>,
         \<lparr>TimeInterval.Title = ''<5h'', TimeInterval.Total = 0\<rparr>,
         \<lparr>TimeInterval.Title = ''5h+'', TimeInterval.Total = 0\<rparr>],
      CAFinalOverview.BestTimeUsed = \<lparr>BestTimeExecutor.DisplayName = ''N/A'', BestTimeExecutor.BestTime = 0\<rparr>,
      CAFinalOverview.Leaderboards = []\<rparr>"
proof -
  have "newOverview s now [] = newOverview inOrder now []"
    by (simp add: newOverview_def inOrder_def groupAppInByExecutor_def groupAppInByProduct_def
          calculatePerformanceConversionMetricsByExecutor_def
          calculatePerformanceConversionMetricsByProduct_def permuting_Nil [OF assms])
  moreover have "newCAFinalOverview s now [] = newCAFinalOverview inOrder now []"
    by (simp add: newCAFinalOverview_def inOrder_def groupCAFinalByExecutor_def
          calculateCAFinalConversionMetricsByExecutor_def permuting_Nil [OF assms])
  ultimately show ?thesis
    by (simp only: newOverview_run_eq newCAFinalOverview_run_eq newOverview_Nil_inOrder
          newCAFinalOverview_Nil_inOrder simp_thms)
qed

theorem empty_input_overview_witness:
  "permuting reversed
   \<and> newOverview_run reversed 0 [] = Inr (newOverview reversed 0 [])
   \<and> Overview.ActiveExecutor (newOverview reversed 0 []) = 0
   \<and> Overview.Leaderboards (newOverview reversed 0 []) = []
   \<and> Overview.TopPerformer (newOverview reversed 0 []) =
       \<lparr>TopPerformer.DisplayName = '''', TopPerformer.Converted = 0,
        TopPerformer.ConversionRate = 0\<rparr>
   \<and> Overview.BestTimeUsed (newOverview reversed 0 []) =
       \<lparr>BestTimeExecutor.DisplayName = ''N/A'', BestTimeExecutor.BestTime = 0\<rparr>
   \<and> Conversion.Total (Overview.Conversion (newOverview reversed 0 [])) = 0
   \<and> CAFinalOverview.ActiveExecutor (newCAFinalOverview reversed 0 []) = 0"
  using empty_input_overview [OF permuting_reversed, of 0] permuting_reversed
  by simp

end
